theory Spec2Isabelle
  imports Complex_Main "HOL-Library.Sublist" "HOL-Library.Log_Nat"
begin

section \<open>Strings entered by the user\<close>

text \<open>
  Text typed into a \<open>TextInput\<close> is a JavaScript string: a sequence of UTF-16 code units,
  modelled as a list of naturals. \<open>String.prototype.trim\<close> removes the code units that
  ECMAScript classifies as WhiteSpace or LineTerminator from both ends. The literal texts of
  the sample data are ASCII and are kept as \<open>string\<close>.
\<close>

type_synonym jsstring = "nat list"

definition isWhiteSpace :: "nat \<Rightarrow> bool" where
  "isWhiteSpace c =
     (c = 0x9 \<or> c = 0xA \<or> c = 0xB \<or> c = 0xC \<or> c = 0xD \<or> c = 0x20 \<or> c = 0xA0
      \<or> c = 0x1680 \<or> (0x2000 \<le> c \<and> c \<le> 0x200A) \<or> c = 0x2028 \<or> c = 0x2029
      \<or> c = 0x202F \<or> c = 0x205F \<or> c = 0x3000 \<or> c = 0xFEFF)"

definition trim :: "jsstring \<Rightarrow> jsstring" where
  "trim s = rev (dropWhile isWhiteSpace (rev (dropWhile isWhiteSpace s)))"

text \<open>JavaScript truthiness of a string: the empty string is falsy, every other one truthy.\<close>

definition truthy :: "jsstring \<Rightarrow> bool" where
  "truthy s = (s \<noteq> [])"

section \<open>Numbers\<close>

text \<open>
  A JavaScript \<open>number\<close> is an IEEE 754 double. A finite double is modelled as the real
  it denotes. An arithmetic operator of the code computes the exact result and rounds it
  to the nearest double, a tie going to the double with the even significand.
  \<open>exponent y\<close> is the integer \<open>e\<close> with \<open>2^e \<le> y < 2^(e+1)\<close> for a positive \<open>y\<close>;
  \<open>ulp x\<close> is the distance between the doubles around \<open>x\<close>, which is \<open>2^(e-52)\<close> and
  never less than \<open>2^-1074\<close>; \<open>fl\<close> rounds a real to a multiple of that distance.
  The sign of a zero is not tracked.
\<close>

definition pow2 :: "int \<Rightarrow> real" where
  "pow2 k = (if 0 \<le> k then 2 ^ nat k else 1 / 2 ^ nat (- k))"

definition exponent :: "real \<Rightarrow> int" where
  "exponent y = (if 1 \<le> y then bitlen \<lfloor>y\<rfloor> - 1 else - bitlen (\<lceil>1 / y\<rceil> - 1))"

definition roundHalfEven :: "real \<Rightarrow> int" where
  "roundHalfEven q =
     (let r = \<lfloor>q\<rfloor>; d = q - of_int r
      in if d < 1 / 2 then r else if 1 / 2 < d then r + 1 else if even r then r else r + 1)"

definition ulp :: "real \<Rightarrow> real" where
  "ulp x = pow2 (max (exponent \<bar>x\<bar>) (- 1022) - 52)"

definition fl :: "real \<Rightarrow> real" where
  "fl x = (if x = 0 then 0 else of_int (roundHalfEven (x / ulp x)) * ulp x)"

text \<open>
  The operators \<open>+\<close>, \<open>-\<close> and \<open>*\<close> on finite doubles whose result stays finite. They
  are used for the arithmetic on the results of \<open>Math.random()\<close>, which stays below
  \<open>2^16\<close> for a random number in \<open>[0, 1)\<close>. \<open>isDouble\<close> holds for the reals that are
  finite doubles.
\<close>

definition fadd :: "real \<Rightarrow> real \<Rightarrow> real" where
  "fadd x y = fl (x + y)"

definition fsub :: "real \<Rightarrow> real \<Rightarrow> real" where
  "fsub x y = fl (x - y)"

definition fmul :: "real \<Rightarrow> real \<Rightarrow> real" where
  "fmul x y = fl (x * y)"


text \<open>
  A number held in the state: finite, infinite or \<open>NaN\<close>. A sum whose rounded value
  reaches \<open>2^1024\<close> overflows to the infinity of its sign; the sum of the two infinities
  is \<open>NaN\<close>, and \<open>NaN\<close> is absorbing. \<open>x - y\<close> is \<open>x + (-y)\<close>. \<open>safeInteger\<close> is
  \<open>Number.isSafeInteger\<close>.
\<close>

datatype Number = Finite real | PosInfinity | NegInfinity | NaN

definition toNumber :: "real \<Rightarrow> Number" where
  "toNumber x =
     (let r = fl x
      in if 2 ^ 1024 \<le> \<bar>r\<bar> then (if 0 < r then PosInfinity else NegInfinity) else Finite r)"

fun numberAdd :: "Number \<Rightarrow> Number \<Rightarrow> Number" where
  "numberAdd NaN y = NaN"
| "numberAdd x NaN = NaN"
| "numberAdd PosInfinity NegInfinity = NaN"
| "numberAdd NegInfinity PosInfinity = NaN"
| "numberAdd PosInfinity y = PosInfinity"
| "numberAdd x PosInfinity = PosInfinity"
| "numberAdd NegInfinity y = NegInfinity"
| "numberAdd x NegInfinity = NegInfinity"
| "numberAdd (Finite x) (Finite y) = toNumber (x + y)"

fun numberNegate :: "Number \<Rightarrow> Number" where
  "numberNegate (Finite x) = Finite (- x)"
| "numberNegate PosInfinity = NegInfinity"
| "numberNegate NegInfinity = PosInfinity"
| "numberNegate NaN = NaN"

definition numberSub :: "Number \<Rightarrow> Number \<Rightarrow> Number" where
  "numberSub x y = numberAdd x (numberNegate y)"


section \<open>Animation values\<close>

text \<open>
  The animation descriptions of react-native-reanimated that the sources build:
  \<open>withTiming(to, {duration, easing})\<close>, \<open>withSequence\<close>, \<open>withDelay\<close> and
  \<open>withRepeat(animation, count, reverse)\<close>. A timing without a duration has the
  library's default, written \<open>None\<close> here. Amplitudes, angles and milliseconds are
  finite doubles, held as the reals they denote: a decimal literal of the source stands
  for the double nearest to it, and a number that the code computes is rounded by the
  operators of the section on numbers.
\<close>

datatype Easing =
    EaseDefault
  | EaseLinear
  | EaseInOutEase
  | EaseInOutSin
  | EaseOutQuad
  | EaseInQuad
  | EaseOutEase
  | EaseInCubic
  | EaseOutCubic
  | EaseOutBack real
  | EaseBezier real real real real

datatype Animation =
    Timing real "real option" Easing
  | Sequence "Animation list"
  | Delay real Animation
  | Repeat Animation int bool

text \<open>
  What a shared value holds: a plain number, a running animation, or (after an animation
  was cut short) the number the animation had reached, which the model does not track.
\<close>

datatype Shared = Num real | Anim Animation | Stopped

section \<open>The decisions screen\<close>

record Framework =
  fw_id :: int
  fw_name :: string
  fw_description :: string
  fw_philosophy :: string
  fw_steps :: "string list"

text \<open>The four elements of the literal array \<open>frameworks\<close>, in its order.\<close>

definition stoicFork :: Framework where
  "stoicFork =
    \<lparr> fw_id = 1, fw_name = ''Stoic Fork'',
      fw_description = ''Based on Stoic philosophy, this framework helps you focus on what you can control.'',
      fw_philosophy = ''Stoicism'',
      fw_steps = [
        ''Identify what aspects of the situation are within your control'',
        ''Recognize what aspects are outside your control'',
        ''Focus your energy only on what you can influence'',
        ''Accept with equanimity what you cannot change''] \<rparr>"

definition middleWay :: Framework where
  "middleWay =
    \<lparr> fw_id = 2, fw_name = ''Middle Way'',
      fw_description = ''Inspired by Buddhist philosophy, find balance between extremes.'',
      fw_philosophy = ''Buddhism'',
      fw_steps = [
        ''Identify the extreme positions or choices'',
        ''Reflect on the potential consequences of each extreme'',
        ''Find a balanced approach that avoids extremes'',
        ''Choose the path that minimizes suffering for all involved''] \<rparr>"

definition wuWeiDecision :: Framework where
  "wuWeiDecision =
    \<lparr> fw_id = 3, fw_name = ''Wu Wei Decision'',
      fw_description = ''Based on Taoist principle of '' @ [CHR 0x22] @ ''effortless action''
        @ [CHR 0x22] @ '' - align with the natural flow.'',
      fw_philosophy = ''Taoism'',
      fw_steps = [
        ''Observe the natural patterns in the situation'',
        ''Consider which option requires the least force or resistance'',
        ''Identify which choice aligns with your true nature'',
        ''Choose the path of least resistance that accomplishes your goal''] \<rparr>"

definition socraticMethod :: Framework where
  "socraticMethod =
    \<lparr> fw_id = 4, fw_name = ''Socratic Method'',
      fw_description = ''Use systematic questioning to examine assumptions and reach clarity.'',
      fw_philosophy = ''Greek Philosophy'',
      fw_steps = [
        ''What do I think I know about this situation?'',
        ''How can I test these assumptions?'',
        ''What contradictions exist in my thinking?'',
        ''What is the most logical conclusion based on this examination?''] \<rparr>"

definition frameworks :: "Framework list" where
  "frameworks = [stoicFork, middleWay, wuWeiDecision, socraticMethod]"

datatype Mood = Happy | Thinking | Excited | Meditating

text \<open>
  The component state of \<open>DecisionsScreen\<close>: its seven \<open>useState\<close> cells and its five
  shared animation values.
\<close>

record DecisionsState =
  decision :: jsstring
  selectedFramework :: "Framework option"
  currentStep :: int
  responses :: "jsstring list"
  showResults :: bool
  inputText :: jsstring
  mascotMood :: Mood
  cardOpacity :: Shared
  cardTranslateY :: Shared
  stepOpacity :: Shared
  stepScale :: Shared
  resultsOpacity :: Shared

text \<open>
  The state after the first render and its mount effect (the cards animate in; the step
  effect does nothing while no framework is selected).
\<close>

definition initialDecisions :: DecisionsState where
  "initialDecisions =
     \<lparr> decision = [], selectedFramework = None, currentStep = 0, responses = [],
       showResults = False, inputText = [], mascotMood = Thinking,
       cardOpacity = Anim (Timing 1 (Some 800) EaseDefault),
       cardTranslateY = Anim (Timing 0 (Some 800) EaseDefault),
       stepOpacity = Num 0, stepScale = Num 0.9, resultsOpacity = Num 0 \<rparr>"

text \<open>
  \<open>handleFrameworkSelect\<close>; its request to scroll to the top changes no state and is left
  out.
\<close>

definition handleFrameworkSelect :: "Framework \<Rightarrow> DecisionsState \<Rightarrow> DecisionsState" where
  "handleFrameworkSelect framework s =
     s\<lparr> selectedFramework := Some framework, currentStep := 0, responses := [],
        showResults := False, mascotMood := Excited,
        stepOpacity := Num 0, stepScale := Num 0.9, resultsOpacity := Num 0 \<rparr>"

text \<open>
  \<open>handleNextStep\<close>: the response is appended, the input cleared and the step animated
  out and in; then either the step counter advances (and the mood follows the progress)
  or the results are shown.
\<close>

definition handleNextStep :: "jsstring \<Rightarrow> DecisionsState \<Rightarrow> DecisionsState" where
  "handleNextStep response s =
     (let s1 = s\<lparr> responses := responses s @ [response], inputText := [],
                   stepOpacity := Anim (Sequence [Timing 0 (Some 300) EaseDefault,
                                                  Timing 1 (Some 300) EaseDefault]),
                   stepScale := Anim (Sequence [Timing 0.9 (Some 300) EaseDefault,
                                                Timing 1 (Some 300) EaseDefault]) \<rparr>
      in case selectedFramework s of
           Some fw \<Rightarrow>
             if currentStep s < int (length (fw_steps fw)) - 1
             then s1\<lparr> currentStep := currentStep s + 1,
                      mascotMood :=
                        (if currentStep s = 0 then Thinking
                         else if currentStep s = int (length (fw_steps fw)) - 2 then Excited
                         else mascotMood s) \<rparr>
             else s1\<lparr> showResults := True, mascotMood := Meditating,
                      resultsOpacity := Anim (Delay 600 (Timing 1 (Some 800) EaseDefault)) \<rparr>
         | None \<Rightarrow>
             s1\<lparr> showResults := True, mascotMood := Meditating,
                 resultsOpacity := Anim (Delay 600 (Timing 1 (Some 800) EaseDefault)) \<rparr>)"

definition resetDecision :: "DecisionsState \<Rightarrow> DecisionsState" where
  "resetDecision s =
     s\<lparr> decision := [], selectedFramework := None, currentStep := 0, responses := [],
        showResults := False, mascotMood := Thinking,
        cardOpacity := Anim (Timing 1 (Some 800) EaseDefault),
        cardTranslateY := Anim (Timing 0 (Some 800) EaseDefault),
        stepOpacity := Num 0, stepScale := Num 0.9, resultsOpacity := Num 0 \<rparr>"

text \<open>
  The second effect of the component runs after a render in which \<open>selectedFramework\<close> or
  \<open>currentStep\<close> changed; it animates the step in when a framework is selected.
\<close>

definition stepEffect :: "DecisionsState \<Rightarrow> DecisionsState \<Rightarrow> DecisionsState" where
  "stepEffect before s =
     (if (selectedFramework s \<noteq> selectedFramework before \<or> currentStep s \<noteq> currentStep before)
         \<and> selectedFramework s \<noteq> None
      then s\<lparr> stepOpacity := Anim (Timing 1 (Some 500) EaseDefault),
              stepScale := Anim (Timing 1 (Some 500) EaseDefault) \<rparr>
      else s)"

text \<open>
  The \<open>disabled\<close> prop every framework card is rendered with: \<open>!decision.trim()\<close>.
\<close>

definition cardDisabled :: "DecisionsState \<Rightarrow> bool" where
  "cardDisabled s = (\<not> truthy (trim (decision s)))"

text \<open>
  The events the rendered tree can deliver. Which controls exist follows the JSX: the
  decision input and the framework cards are rendered while no framework is selected; the
  Start Over button while one is; the step input and the Next button while the results are
  not shown; the Make Another Decision button while they are. A disabled card does not
  call its \<open>onPress\<close>.
\<close>

datatype DecisionsEvent =
    ChangeDecision jsstring
  | PressFramework nat
  | ChangeInput jsstring
  | PressNext
  | PressStartOver
  | PressNewDecision

fun delivered :: "DecisionsState \<Rightarrow> DecisionsEvent \<Rightarrow> bool" where
  "delivered s (ChangeDecision t) = (selectedFramework s = None)"
| "delivered s (PressFramework i) =
     (selectedFramework s = None \<and> i < length frameworks \<and> \<not> cardDisabled s)"
| "delivered s (ChangeInput t) = (selectedFramework s \<noteq> None \<and> \<not> showResults s)"
| "delivered s PressNext = (selectedFramework s \<noteq> None \<and> \<not> showResults s)"
| "delivered s PressStartOver = (selectedFramework s \<noteq> None)"
| "delivered s PressNewDecision = (selectedFramework s \<noteq> None \<and> showResults s)"

fun handler :: "DecisionsEvent \<Rightarrow> DecisionsState \<Rightarrow> DecisionsState" where
  "handler (ChangeDecision t) s = s\<lparr> decision := t \<rparr>"
| "handler (PressFramework i) s = handleFrameworkSelect (frameworks ! i) s"
| "handler (ChangeInput t) s = s\<lparr> inputText := t \<rparr>"
| "handler PressNext s = handleNextStep (inputText s) s"
| "handler PressStartOver s = resetDecision s"
| "handler PressNewDecision s = resetDecision s"

text \<open>
  One event: an event that the rendered tree cannot deliver changes nothing; otherwise its
  handler runs, and after the render the step effect.
\<close>

definition dispatch :: "DecisionsState \<Rightarrow> DecisionsEvent \<Rightarrow> DecisionsState" where
  "dispatch s e = (if delivered s e then stepEffect s (handler e s) else s)"

definition run :: "DecisionsEvent list \<Rightarrow> DecisionsState" where
  "run es = foldl dispatch initialDecisions es"

text \<open>
  The invariant of the step flow: while a framework is selected the step counter indexes
  one of its steps, one response has been recorded per completed step, and the results
  are shown once every step has its response.
\<close>

definition stepInvariant :: "DecisionsState \<Rightarrow> bool" where
  "stepInvariant s =
     (case selectedFramework s of
        None \<Rightarrow> True
      | Some fw \<Rightarrow>
          fw_steps fw \<noteq> [] \<and> 0 \<le> currentStep s \<and> currentStep s < int (length (fw_steps fw))
          \<and> (if showResults s then length (responses s) = length (fw_steps fw)
              else int (length (responses s)) = currentStep s))"

text \<open>Answering one step: the user types a response and presses the Next button.\<close>

definition answer :: "jsstring \<Rightarrow> DecisionsEvent list" where
  "answer r = [ChangeInput r, PressNext]"

section \<open>The habits screen\<close>

text \<open>
  \<open>interface Habit\<close>. The fields \<open>id\<close> and \<open>streak\<close> have the TypeScript type
  \<open>number\<close>. The code computes with \<open>streak\<close>, which is a \<open>Number\<close> here. An \<open>id\<close>
  is only compared with \<open>===\<close> and every \<open>id\<close> of a run comes from the integer literals
  of the sample data, so it is an integer here.
\<close>

record Habit =
  h_id :: int
  h_name :: string
  h_description :: string
  h_philosophy :: string
  h_streak :: Number
  h_completed :: bool
  h_color :: string

definition morningMeditation :: Habit where
  "morningMeditation =
     \<lparr> h_id = 1, h_name = ''Morning Meditation'',
       h_description = ''Start the day with 10 minutes of mindfulness'',
       h_philosophy = ''Buddhism'', h_streak = Finite 3, h_completed = False, h_color = ''#A1CEDC'' \<rparr>"

definition journaling :: Habit where
  "journaling =
     \<lparr> h_id = 2, h_name = ''Journaling'',
       h_description = ''Evening reflection on daily events'',
       h_philosophy = ''Stoicism'', h_streak = Finite 5, h_completed = False, h_color = ''#D0A1DC'' \<rparr>"

definition natureWalk :: Habit where
  "natureWalk =
     \<lparr> h_id = 3, h_name = ''Nature Walk'',
       h_description = ''Connect with nature for 20 minutes'',
       h_philosophy = ''Taoism'', h_streak = Finite 1, h_completed = False, h_color = ''#A1DCA5'' \<rparr>"

definition gratitudePractice :: Habit where
  "gratitudePractice =
     \<lparr> h_id = 4, h_name = ''Gratitude Practice'',
       h_description = ''List three things you are grateful for'',
       h_philosophy = ''Stoicism'', h_streak = Finite 7, h_completed = False, h_color = ''#DCA1A1'' \<rparr>"

definition initialHabits :: "Habit list" where
  "initialHabits = [morningMeditation, journaling, natureWalk, gratitudePractice]"

text \<open>
  \<open>toggleHabitCompletion\<close> passes React the updater
  \<open>prevHabits => prevHabits.map(habit => habit.id === id ? {...} : habit)\<close>;
  the function below is that updater.
\<close>

definition toggleHabitCompletion :: "int \<Rightarrow> Habit list \<Rightarrow> Habit list" where
  "toggleHabitCompletion ident prevHabits =
     map (\<lambda>habit.
            if h_id habit = ident
            then habit\<lparr> h_completed := \<not> h_completed habit,
                       h_streak := (if \<not> h_completed habit
                                    then numberAdd (h_streak habit) (Finite 1)
                                    else numberSub (h_streak habit) (Finite 1)) \<rparr>
            else habit)
         prevHabits"

section \<open>The profile screen\<close>

record PhilosophicalPreference =
  p_id :: int
  p_name :: string
  p_selected :: bool

definition philosophicalPreferences :: "PhilosophicalPreference list" where
  "philosophicalPreferences = [
     \<lparr> p_id = 1, p_name = ''Stoicism'', p_selected = True \<rparr>,
     \<lparr> p_id = 2, p_name = ''Buddhism'', p_selected = True \<rparr>,
     \<lparr> p_id = 3, p_name = ''Taoism'', p_selected = True \<rparr>,
     \<lparr> p_id = 4, p_name = ''Confucianism'', p_selected = False \<rparr>,
     \<lparr> p_id = 5, p_name = ''Epicureanism'', p_selected = False \<rparr>,
     \<lparr> p_id = 6, p_name = ''Existentialism'', p_selected = False \<rparr>]"

record ProfileData =
  pd_name :: string
  pd_joinDate :: string
  pd_streak :: int
  pd_favoritePhilosophy :: string
  pd_completedHabits :: int
  pd_decisionsGuided :: int

definition profileData :: ProfileData where
  "profileData =
     \<lparr> pd_name = ''Alex Johnson'', pd_joinDate = ''April 2025'', pd_streak = 12,
       pd_favoritePhilosophy = ''Stoicism'', pd_completedHabits = 42, pd_decisionsGuided = 15 \<rparr>"

record AppSettings =
  darkMode :: bool
  notifications :: bool
  dailyReminders :: bool
  weeklyReports :: bool
  dataSync :: bool

definition initialSettings :: AppSettings where
  "initialSettings =
     \<lparr> darkMode = False, notifications = True, dailyReminders = True,
       weeklyReports = True, dataSync = False \<rparr>"

text \<open>\<open>keyof AppSettings\<close>.\<close>

datatype SettingKey = KDarkMode | KNotifications | KDailyReminders | KWeeklyReports | KDataSync

definition togglePreference :: "int \<Rightarrow> PhilosophicalPreference list \<Rightarrow> PhilosophicalPreference list" where
  "togglePreference ident prevPreferences =
     map (\<lambda>pref. if p_id pref = ident then pref\<lparr> p_selected := \<not> p_selected pref \<rparr> else pref)
         prevPreferences"

fun toggleSetting :: "SettingKey \<Rightarrow> AppSettings \<Rightarrow> AppSettings" where
  "toggleSetting KDarkMode prevSettings = prevSettings\<lparr> darkMode := \<not> darkMode prevSettings \<rparr>"
| "toggleSetting KNotifications prevSettings =
     prevSettings\<lparr> notifications := \<not> notifications prevSettings \<rparr>"
| "toggleSetting KDailyReminders prevSettings =
     prevSettings\<lparr> dailyReminders := \<not> dailyReminders prevSettings \<rparr>"
| "toggleSetting KWeeklyReports prevSettings =
     prevSettings\<lparr> weeklyReports := \<not> weeklyReports prevSettings \<rparr>"
| "toggleSetting KDataSync prevSettings = prevSettings\<lparr> dataSync := \<not> dataSync prevSettings \<rparr>"

section \<open>The wisdom screen\<close>

record Quote =
  q_id :: int
  q_text :: string
  q_author :: string

text \<open>The icons are kept as the UTF-16 code units of the source text.\<close>

record Philosophy =
  ph_id :: int
  ph_name :: string
  ph_icon :: jsstring
  ph_description :: string
  ph_quotes :: "Quote list"

definition stoicism :: Philosophy where
  "stoicism =
     \<lparr> ph_id = 1, ph_name = ''Stoicism'',
       ph_icon = [0xF8FF, 0xFC, 0xE8, 0xF5, 0xD4, 0x220F, 0xE8],
       ph_description = ''Ancient Greek and Roman philosophy emphasizing virtue, reason, and resilience.'',
       ph_quotes = [
         \<lparr> q_id = 1, q_text = ''The happiness of your life depends upon the quality of your thoughts.'',
           q_author = ''Marcus Aurelius'' \<rparr>,
         \<lparr> q_id = 2, q_text = ''You have power over your mind - not outside events. Realize this, and you will find strength.'',
           q_author = ''Marcus Aurelius'' \<rparr>,
         \<lparr> q_id = 3, q_text = ''He who fears death will never do anything worthy of a man who is alive.'',
           q_author = ''Seneca'' \<rparr>] \<rparr>"

definition buddhism :: Philosophy where
  "buddhism =
     \<lparr> ph_id = 2, ph_name = ''Buddhism'',
       ph_icon = [0x201A, 0xF2, 0x220F, 0xD4, 0x220F, 0xE8],
       ph_description = ''Eastern philosophy focused on mindfulness, compassion, and the end of suffering.'',
       ph_quotes = [
         \<lparr> q_id = 1, q_text = ''Peace comes from within. Do not seek it without.'',
           q_author = ''Buddha'' \<rparr>,
         \<lparr> q_id = 2, q_text = ''The mind is everything. What you think you become.'',
           q_author = ''Buddha'' \<rparr>,
         \<lparr> q_id = 3, q_text = ''Holding on to anger is like grasping a hot coal with the intent of throwing it at someone else; you are the one who gets burned.'',
           q_author = ''Buddha'' \<rparr>] \<rparr>"

definition taoism :: Philosophy where
  "taoism =
     \<lparr> ph_id = 3, ph_name = ''Taoism'',
       ph_icon = [0x201A, 0xF2, 0xD8, 0xD4, 0x220F, 0xE8],
       ph_description = ''Chinese philosophy emphasizing living in harmony with the Tao (the Way).'',
       ph_quotes = [
         \<lparr> q_id = 1, q_text = ''Nature does not hurry, yet everything is accomplished.'',
           q_author = ''Lao Tzu'' \<rparr>,
         \<lparr> q_id = 2, q_text = ''A good traveler has no fixed plans and is not intent on arriving.'',
           q_author = ''Lao Tzu'' \<rparr>,
         \<lparr> q_id = 3, q_text = ''The journey of a thousand miles begins with a single step.'',
           q_author = ''Lao Tzu'' \<rparr>] \<rparr>"

definition confucianism :: Philosophy where
  "confucianism =
     \<lparr> ph_id = 4, ph_name = ''Confucianism'',
       ph_icon = [0xF8FF, 0xFC, 0xDF, 0x2020],
       ph_description = ''Chinese ethical and philosophical system focused on proper conduct and social harmony.'',
       ph_quotes = [
         \<lparr> q_id = 1, q_text = ''It does not matter how slowly you go as long as you do not stop.'',
           q_author = ''Confucius'' \<rparr>,
         \<lparr> q_id = 2, q_text = ''Life is really simple, but we insist on making it complicated.'',
           q_author = ''Confucius'' \<rparr>,
         \<lparr> q_id = 3, q_text = ''Our greatest glory is not in never falling, but in rising every time we fall.'',
           q_author = ''Confucius'' \<rparr>] \<rparr>"

definition philosophers :: "Philosophy list" where
  "philosophers = [stoicism, buddhism, taoism, confucianism]"

text \<open>
  The state of \<open>WisdomScreen\<close>. A \<open>dailyQuote\<close> of \<open>None\<close> is JavaScript's \<open>undefined\<close>,
  which an array read outside the bounds gives.
\<close>

record WisdomState =
  selectedPhilosophy :: "Philosophy option"
  dailyQuote :: "Quote option"
  wisdomMood :: Mood
  cardScale :: Shared
  quoteOpacity :: Shared
  quoteTranslateY :: Shared

definition initialWisdom :: WisdomState where
  "initialWisdom =
     \<lparr> selectedPhilosophy = None,
       dailyQuote = Some \<lparr> q_id = 0, q_text = [], q_author = [] \<rparr>,
       wisdomMood = Thinking,
       cardScale = Num 1, quoteOpacity = Num 0, quoteTranslateY = Num 20 \<rparr>"




definition handlePhilosophyPress :: "Philosophy \<Rightarrow> WisdomState \<Rightarrow> WisdomState" where
  "handlePhilosophyPress philosophy s =
     s\<lparr> selectedPhilosophy := Some philosophy, wisdomMood := Meditating,
        cardScale := Anim (Sequence [Timing 0.95 (Some 100) EaseDefault,
                                     Timing 1 (Some 100) EaseDefault]) \<rparr>"



section \<open>The sample data as objects in a store\<close>

text \<open>
  Whether a literal array is mutated depends on aliasing: \<open>useState(initialHabits)\<close> makes
  the component state the very array object of the module, and elements that a \<open>map\<close>
  callback returns unchanged stay shared between the old and the new array. So the
  handlers that build new arrays and objects are modelled a second time over an explicit
  store: a list of objects addressed by position, where an array object holds the
  addresses of its elements. A literal with nested data (a framework with its steps, a
  philosophy with its quotes) is one object of the store; no handler reads or writes inside
  it.

  \<open>Array.prototype.map\<close> creates a fresh array and then defines its elements one by one
  from the results of the callback; the object spread \<open>{...habit, ...}\<close> creates a fresh
  object. Reading from an address that holds no object of the expected kind is the
  \<open>TypeError\<close> of the program and gives \<open>None\<close>.
\<close>

datatype Obj =
    HabitObj Habit
  | PrefObj PhilosophicalPreference
  | SettingsObj AppSettings
  | FrameworkObj Framework
  | PhilosophyObj Philosophy
  | ProfileObj ProfileData
  | StringsObj "jsstring list"
  | ArrObj "nat list"

type_synonym Heap = "Obj list"

definition alloc :: "Heap \<Rightarrow> Obj \<Rightarrow> Heap \<times> nat" where
  "alloc h ob = (h @ [ob], length h)"

definition deref :: "Heap \<Rightarrow> nat \<Rightarrow> Obj option" where
  "deref h r = (if r < length h then Some (h ! r) else None)"

definition appendElem :: "Heap \<Rightarrow> nat \<Rightarrow> nat \<Rightarrow> Heap option" where
  "appendElem h a v =
     (case deref h a of
        Some (ArrObj vs) \<Rightarrow> Some (h[a := ArrObj (vs @ [v])])
      | _ \<Rightarrow> None)"

fun mapFill :: "(Heap \<Rightarrow> nat \<Rightarrow> (Heap \<times> nat) option) \<Rightarrow> nat \<Rightarrow> nat list \<Rightarrow> Heap \<Rightarrow> Heap option" where
  "mapFill f a [] h = Some h"
| "mapFill f a (r # rs) h =
     (case f h r of
        None \<Rightarrow> None
      | Some (h1, v) \<Rightarrow>
          (case appendElem h1 a v of
             None \<Rightarrow> None
           | Some h2 \<Rightarrow> mapFill f a rs h2))"

definition arrayMap :: "(Heap \<Rightarrow> nat \<Rightarrow> (Heap \<times> nat) option) \<Rightarrow> Heap \<Rightarrow> nat \<Rightarrow> (Heap \<times> nat) option" where
  "arrayMap f h src =
     (case deref h src of
        Some (ArrObj rs) \<Rightarrow>
          (case alloc h (ArrObj []) of
             (h0, a) \<Rightarrow>
               (case mapFill f a rs h0 of
                  None \<Rightarrow> None
                | Some h1 \<Rightarrow> Some (h1, a)))
      | _ \<Rightarrow> None)"

text \<open>
  The callbacks of the two \<open>map\<close> calls and the updater of \<open>toggleSetting\<close>, over the
  store: each returns the store and the address of its result.
\<close>

definition toggleHabitCallback :: "int \<Rightarrow> Heap \<Rightarrow> nat \<Rightarrow> (Heap \<times> nat) option" where
  "toggleHabitCallback ident h r =
     (case deref h r of
        Some (HabitObj habit) \<Rightarrow>
          if h_id habit = ident
          then Some (alloc h (HabitObj (habit\<lparr> h_completed := \<not> h_completed habit,
                       h_streak := (if \<not> h_completed habit
                                    then numberAdd (h_streak habit) (Finite 1)
                                    else numberSub (h_streak habit) (Finite 1)) \<rparr>)))
          else Some (h, r)
      | _ \<Rightarrow> None)"

definition togglePreferenceCallback :: "int \<Rightarrow> Heap \<Rightarrow> nat \<Rightarrow> (Heap \<times> nat) option" where
  "togglePreferenceCallback ident h r =
     (case deref h r of
        Some (PrefObj pref) \<Rightarrow>
          if p_id pref = ident
          then Some (alloc h (PrefObj (pref\<lparr> p_selected := \<not> p_selected pref \<rparr>)))
          else Some (h, r)
      | _ \<Rightarrow> None)"

definition toggleSettingStore :: "SettingKey \<Rightarrow> Heap \<Rightarrow> nat \<Rightarrow> (Heap \<times> nat) option" where
  "toggleSettingStore key h r =
     (case deref h r of
        Some (SettingsObj prevSettings) \<Rightarrow> Some (alloc h (SettingsObj (toggleSetting key prevSettings)))
      | _ \<Rightarrow> None)"

text \<open>
  The addresses held by the \<open>useState\<close> cells that hold objects: \<open>habits\<close>,
  \<open>preferences\<close>, \<open>settings\<close>, \<open>selectedFramework\<close>, \<open>responses\<close> and
  \<open>selectedPhilosophy\<close> (\<open>None\<close> is \<open>null\<close>). The module constants \<open>frameworks\<close> and
  \<open>philosophers\<close> are bound to the addresses 17 and 22.
\<close>

record Refs =
  habitsRef :: nat
  preferencesRef :: nat
  settingsRef :: nat
  selectedFrameworkRef :: "nat option"
  responsesRef :: nat
  selectedPhilosophyRef :: "nat option"

definition frameworksRef :: nat where
  "frameworksRef = 17"

definition philosophersRef :: nat where
  "philosophersRef = 22"

text \<open>
  The handlers that take or build objects, as events. A card that is pressed passes the
  element of the literal array it was rendered from; a press on a card that does not exist
  changes nothing. \<open>setResponses([])\<close> and \<open>[...responses, response]\<close> create new arrays.
\<close>

datatype DataEvent =
    ToggleHabit int
  | TogglePreference int
  | ToggleSetting SettingKey
  | SelectFramework nat
  | NextStep jsstring
  | ResetDecision
  | PressPhilosophy nat

fun handleData :: "DataEvent \<Rightarrow> Heap \<times> Refs \<Rightarrow> (Heap \<times> Refs) option" where
  "handleData (ToggleHabit k) (h, refs) =
     (case arrayMap (toggleHabitCallback k) h (habitsRef refs) of
        None \<Rightarrow> None
      | Some (h', a) \<Rightarrow> Some (h', refs\<lparr> habitsRef := a \<rparr>))"
| "handleData (TogglePreference k) (h, refs) =
     (case arrayMap (togglePreferenceCallback k) h (preferencesRef refs) of
        None \<Rightarrow> None
      | Some (h', a) \<Rightarrow> Some (h', refs\<lparr> preferencesRef := a \<rparr>))"
| "handleData (ToggleSetting key) (h, refs) =
     (case toggleSettingStore key h (settingsRef refs) of
        None \<Rightarrow> None
      | Some (h', a) \<Rightarrow> Some (h', refs\<lparr> settingsRef := a \<rparr>))"
| "handleData (SelectFramework i) (h, refs) =
     (case deref h frameworksRef of
        Some (ArrObj fs) \<Rightarrow>
          if i < length fs
          then (case alloc h (StringsObj []) of
                  (h', a) \<Rightarrow>
                    Some (h', refs\<lparr> selectedFrameworkRef := Some (fs ! i), responsesRef := a \<rparr>))
          else Some (h, refs)
      | _ \<Rightarrow> None)"
| "handleData (NextStep response) (h, refs) =
     (case deref h (responsesRef refs) of
        Some (StringsObj rs) \<Rightarrow>
          (case alloc h (StringsObj (rs @ [response])) of
             (h', a) \<Rightarrow> Some (h', refs\<lparr> responsesRef := a \<rparr>))
      | _ \<Rightarrow> None)"
| "handleData ResetDecision (h, refs) =
     (case alloc h (StringsObj []) of
        (h', a) \<Rightarrow> Some (h', refs\<lparr> selectedFrameworkRef := None, responsesRef := a \<rparr>))"
| "handleData (PressPhilosophy i) (h, refs) =
     (case deref h philosophersRef of
        Some (ArrObj ps) \<Rightarrow>
          if i < length ps then Some (h, refs\<lparr> selectedPhilosophyRef := Some (ps ! i) \<rparr>)
          else Some (h, refs)
      | _ \<Rightarrow> None)"

fun runData :: "DataEvent list \<Rightarrow> Heap \<times> Refs \<Rightarrow> (Heap \<times> Refs) option" where
  "runData [] st = Some st"
| "runData (e # es) st = (case handleData e st of None \<Rightarrow> None | Some st' \<Rightarrow> runData es st')"

text \<open>
  The store once the modules are loaded: the four habit objects and the array
  \<open>initialHabits\<close> at address 4, the six preference objects and the array
  \<open>philosophicalPreferences\<close> at address 11, \<open>initialSettings\<close> at address 12, the four
  frameworks and their array at address 17, the four philosophies and their array at
  address 22, and \<open>profileData\<close> at address 23. Mounting the screens adds the empty
  array of \<open>useState<string[]>([])\<close>; the other state cells start from the objects of the
  modules themselves.
\<close>

definition moduleHeap :: Heap where
  "moduleHeap =
     map HabitObj initialHabits @ [ArrObj [0, 1, 2, 3]]
     @ map PrefObj philosophicalPreferences @ [ArrObj [5, 6, 7, 8, 9, 10]]
     @ [SettingsObj initialSettings]
     @ map FrameworkObj frameworks @ [ArrObj [13, 14, 15, 16]]
     @ map PhilosophyObj philosophers @ [ArrObj [18, 19, 20, 21]]
     @ [ProfileObj profileData]"

definition mountedHeap :: Heap where
  "mountedHeap = moduleHeap @ [StringsObj []]"

definition mountedRefs :: Refs where
  "mountedRefs =
     \<lparr> habitsRef = 4, preferencesRef = 11, settingsRef = 12,
       selectedFrameworkRef = None, responsesRef = 24, selectedPhilosophyRef = None \<rparr>"

text \<open>
  Reading the store back: the array at an address holds objects with the given contents.
  The handlers on values are collected in \<open>applyData\<close>, and \<open>represents\<close> relates a store
  and its state cells to the values they stand for.
\<close>

definition elemsAt :: "('a \<Rightarrow> Obj) \<Rightarrow> Heap \<Rightarrow> nat list \<Rightarrow> 'a list \<Rightarrow> bool" where
  "elemsAt con h rs xs = list_all2 (\<lambda>r x. deref h r = Some (con x)) rs xs"

definition arrayAt :: "('a \<Rightarrow> Obj) \<Rightarrow> Heap \<Rightarrow> nat \<Rightarrow> 'a list \<Rightarrow> bool" where
  "arrayAt con h a xs = (case deref h a of Some (ArrObj rs) \<Rightarrow> elemsAt con h rs xs | _ \<Rightarrow> False)"

text \<open>A state cell that holds \<open>null\<close> or the address of an object with the given contents.\<close>

fun refOf :: "('a \<Rightarrow> Obj) \<Rightarrow> Heap \<Rightarrow> nat option \<Rightarrow> 'a option \<Rightarrow> bool" where
  "refOf con h None None = True"
| "refOf con h (Some r) (Some x) = (deref h r = Some (con x))"
| "refOf con h _ _ = False"

record Data =
  habits :: "Habit list"
  preferences :: "PhilosophicalPreference list"
  settings :: AppSettings
  decisions :: DecisionsState
  wisdom :: WisdomState

fun applyData :: "DataEvent \<Rightarrow> Data \<Rightarrow> Data" where
  "applyData (ToggleHabit k) d = d\<lparr> habits := toggleHabitCompletion k (habits d) \<rparr>"
| "applyData (TogglePreference k) d = d\<lparr> preferences := togglePreference k (preferences d) \<rparr>"
| "applyData (ToggleSetting key) d = d\<lparr> settings := toggleSetting key (settings d) \<rparr>"
| "applyData (SelectFramework i) d =
     (if i < length frameworks
      then d\<lparr> decisions := handleFrameworkSelect (frameworks ! i) (decisions d) \<rparr>
      else d)"
| "applyData (NextStep response) d = d\<lparr> decisions := handleNextStep response (decisions d) \<rparr>"
| "applyData ResetDecision d = d\<lparr> decisions := resetDecision (decisions d) \<rparr>"
| "applyData (PressPhilosophy i) d =
     (if i < length philosophers
      then d\<lparr> wisdom := handlePhilosophyPress (philosophers ! i) (wisdom d) \<rparr>
      else d)"

definition represents :: "Heap \<times> Refs \<Rightarrow> Data \<Rightarrow> bool" where
  "represents st d =
     (arrayAt HabitObj (fst st) (habitsRef (snd st)) (habits d)
      \<and> arrayAt PrefObj (fst st) (preferencesRef (snd st)) (preferences d)
      \<and> deref (fst st) (settingsRef (snd st)) = Some (SettingsObj (settings d))
      \<and> arrayAt FrameworkObj (fst st) frameworksRef frameworks
      \<and> arrayAt PhilosophyObj (fst st) philosophersRef philosophers
      \<and> refOf FrameworkObj (fst st) (selectedFrameworkRef (snd st))
           (selectedFramework (decisions d))
      \<and> deref (fst st) (responsesRef (snd st)) = Some (StringsObj (responses (decisions d)))
      \<and> refOf PhilosophyObj (fst st) (selectedPhilosophyRef (snd st))
           (selectedPhilosophy (wisdom d)))"

definition initialData :: Data where
  "initialData =
     \<lparr> habits = initialHabits, preferences = philosophicalPreferences,
       settings = initialSettings, decisions = initialDecisions, wisdom = initialWisdom \<rparr>"

section \<open>The owl mascot\<close>

text \<open>
  The shared animation values of the two animated characters, by the names of their
  \<open>useSharedValue\<close> cells. \<open>MascotCharacter\<close> has \<open>bodyBounce\<close>, \<open>eyeBlink\<close>, \<open>wingFlap\<close>,
  \<open>headTilt\<close>, \<open>floatY\<close> and the two floating elements; \<open>PaxtonCharacter\<close> has the first
  ten of the list.
\<close>

datatype ValueName =
    BodyBounce | BodyRotation | JumpHeight | CharacterRotation | ArmWave
  | LegSwing | HeadTilt | EyeBlink | MouthSmile | FloatY
  | WingFlap | FloatingElement1Y | FloatingElement2Y

text \<open>
  A timed value transition: at a time (milliseconds after the mount effect ran) a shared
  value is given a new content.
\<close>

type_synonym Transition = "real \<times> ValueName \<times> Shared"

definition blinkAnimation :: Animation where
  "blinkAnimation =
     Sequence [Timing 0.1 (Some 100) EaseDefault, Timing 1 (Some 100) EaseDefault,
               Timing 0.1 (Some 100) EaseDefault, Timing 1 (Some 100) EaseDefault]"

text \<open>
  \<open>isComponentMounted.current\<close> at a time, for a component whose effect cleanup runs at
  \<open>unmountAt\<close> (never, for \<open>None\<close>).
\<close>

fun mountedAt :: "real option \<Rightarrow> real \<Rightarrow> bool" where
  "mountedAt None t = True"
| "mountedAt (Some unmount) t = (t < unmount)"

text \<open>
  \<open>blinkEyes\<close> of \<open>MascotCharacter\<close>, called at time \<open>t\<close>. It returns at once when the
  component is no longer mounted; otherwise it starts the blink and asks \<open>setTimeout\<close> to
  call it again after \<open>2000 + Math.random() * 2000\<close> milliseconds, a delay computed
  with the operators on doubles. The chain of timers never ends by itself, so the function
  follows it for \<open>n\<close> timer calls; \<open>u k\<close> is the result of the \<open>k\<close>-th call of
  \<open>Math.random()\<close>. The time at which a timer fires is the time of the call plus the
  delay; that sum is the clock's and not a computation of the code.
\<close>

fun blinkEyes :: "real option \<Rightarrow> (nat \<Rightarrow> real) \<Rightarrow> nat \<Rightarrow> real \<Rightarrow> nat \<Rightarrow> Transition list" where
  "blinkEyes unmountAt u 0 t k =
     (if \<not> mountedAt unmountAt t then []
      else [(t, EyeBlink, Anim blinkAnimation)])"
| "blinkEyes unmountAt u (Suc n) t k =
     (if \<not> mountedAt unmountAt t then []
      else (t, EyeBlink, Anim blinkAnimation)
           # blinkEyes unmountAt u n (t + fadd 2000 (fmul (u k) 2000)) (Suc k))"

definition bodyBounceAnimation :: Animation where
  "bodyBounceAnimation =
     Repeat (Sequence [Timing (- 5) (Some 1000) EaseInOutEase,
                       Timing 0 (Some 1000) EaseInOutEase]) (- 1) True"

text \<open>The assignments of the mood branches of the effect, in the order of the source.\<close>

definition wingFlapFor :: "Mood \<Rightarrow> (ValueName \<times> Shared) list" where
  "wingFlapFor mood =
     (if mood = Excited
      then [(WingFlap, Anim (Repeat (Sequence [Timing (- 15) (Some 200) EaseInOutEase,
                                               Timing 0 (Some 200) EaseInOutEase]) (- 1) True))]
      else if mood = Thinking
      then [(WingFlap, Anim (Repeat (Sequence [Timing (- 5) (Some 1000) EaseInOutEase,
                                               Timing 0 (Some 1000) EaseInOutEase]) (- 1) True))]
      else [])"

definition headTiltFor :: "Mood \<Rightarrow> (ValueName \<times> Shared) list" where
  "headTiltFor mood =
     (if mood = Thinking
      then [(HeadTilt, Anim (Repeat (Sequence [Timing 10 (Some 1000) EaseInOutEase,
                                               Timing 0 (Some 1000) EaseInOutEase]) (- 1) True))]
      else if mood = Meditating then [(HeadTilt, Num 0)]
      else [])"

definition floatFor :: "Mood \<Rightarrow> (ValueName \<times> Shared) list" where
  "floatFor mood =
     (if mood = Meditating
      then [(FloatY, Anim (Repeat (Sequence [Timing (- 10) (Some 2000) EaseInOutEase,
                                             Timing 0 (Some 2000) EaseInOutEase]) (- 1) True)),
            (FloatingElement1Y, Anim (Repeat (Sequence [Timing (- 10) (Some 1500) EaseDefault,
                                                        Timing 0 (Some 1500) EaseDefault]) (- 1) True)),
            (FloatingElement2Y, Anim (Repeat (Sequence [Timing (- 8) (Some 2000) EaseDefault,
                                                        Timing 0 (Some 2000) EaseDefault]) (- 1) True))]
      else [])"

definition atTime :: "real \<Rightarrow> (ValueName \<times> Shared) list \<Rightarrow> Transition list" where
  "atTime t assignments = map (\<lambda>(v, x). (t, v, x)) assignments"

text \<open>
  A run of \<open>MascotCharacter\<close> with one mood: the effect runs at time 0 (body bounce, the
  first call of \<open>blinkEyes\<close>, then the mood branches), and the blinks that the timers
  start follow.
\<close>

definition mascotRun :: "Mood \<Rightarrow> real option \<Rightarrow> (nat \<Rightarrow> real) \<Rightarrow> nat \<Rightarrow> Transition list" where
  "mascotRun mood unmountAt u n =
     (let blinks = blinkEyes unmountAt u n 0 0
      in (0, BodyBounce, Anim bodyBounceAnimation)
         # take 1 blinks
         @ atTime 0 (wingFlapFor mood @ headTiltFor mood @ floatFor mood)
         @ drop 1 blinks)"

text \<open>The cleanup of the effect cancels the animations of the seven values.\<close>

definition mascotCleanup :: "ValueName list" where
  "mascotCleanup =
     [BodyBounce, EyeBlink, WingFlap, HeadTilt, FloatY, FloatingElement1Y, FloatingElement2Y]"

section \<open>The Paxton character\<close>

datatype PaxtonMood = PaxtonHappy | PaxtonThinking | PaxtonExcited | PaxtonShy

text \<open>The functions that the component hands to \<open>setTimeout\<close>.\<close>

datatype Callback = Blink bool | RandomizeArmMovements | HappyWave | ChangeGaze

text \<open>
  What the component cannot decide itself: the results of the successive calls of
  \<open>Math.random()\<close>, whether \<open>cancelAnimation\<close> raises an exception for a value, and
  the \<open>onPress\<close> prop (\<open>None\<close> when absent, otherwise whether the callback raises).
\<close>

record Env =
  random :: "nat \<Rightarrow> real"
  cancelThrows :: "ValueName \<Rightarrow> bool"
  onPress :: "bool option"

text \<open>
  The state of a \<open>PaxtonCharacter\<close>: the contents of its shared values, the ref
  \<open>isComponentMounted\<close>, how many random numbers were drawn, and what it did to the outside:
  the calls of \<open>cancelAnimation\<close> (with the content that was cancelled), the messages of
  \<open>console.warn\<close>, the calls of \<open>setTimeout\<close> that have not fired yet (callback and
  delay) and the number of calls of \<open>onPress\<close>. \<open>effectMood\<close> is the mood with which the
  effect last ran, \<open>None\<close> while the component is not mounted.
\<close>

record PaxtonState =
  shared :: "ValueName \<Rightarrow> Shared"
  isComponentMounted :: bool
  drawn :: nat
  cancelled :: "(ValueName \<times> Shared) list"
  warnings :: "string list"
  timeouts :: "(Callback \<times> real) list"
  presses :: nat
  effectMood :: "PaxtonMood option"

text \<open>
  A statement takes the state to a new state and says whether an exception is leaving it.
  \<open>block\<close> runs statements in sequence up to the first exception; \<open>tryCatch\<close> runs the
  handler on the state in which the exception was raised.
\<close>

type_synonym Action = "PaxtonState \<Rightarrow> PaxtonState \<times> bool"

fun block :: "Action list \<Rightarrow> Action" where
  "block [] s = (s, False)"
| "block (a # as) s = (let r = a s in if snd r then r else block as (fst r))"

definition tryCatch :: "Action \<Rightarrow> Action \<Rightarrow> Action" where
  "tryCatch body catch s = (let r = body s in if snd r then catch (fst r) else r)"

definition assign :: "ValueName \<Rightarrow> Shared \<Rightarrow> Action" where
  "assign v x s = (s\<lparr> shared := (shared s)(v := x) \<rparr>, False)"

text \<open>Cutting an animation short leaves the value at the number it had reached.\<close>

fun halted :: "Shared \<Rightarrow> Shared" where
  "halted (Num x) = Num x"
| "halted (Anim a) = Stopped"
| "halted Stopped = Stopped"

definition cancelAnimation :: "Env \<Rightarrow> ValueName \<Rightarrow> Action" where
  "cancelAnimation env v s =
     (if cancelThrows env v then (s, True)
      else (s\<lparr> shared := (shared s)(v := halted (shared s v)),
               cancelled := cancelled s @ [(v, shared s v)] \<rparr>, False))"

definition warn :: "string \<Rightarrow> Action" where
  "warn msg s = (s\<lparr> warnings := warnings s @ [msg] \<rparr>, False)"

definition setTimeout :: "Callback \<Rightarrow> real \<Rightarrow> Action" where
  "setTimeout callback delay s = (s\<lparr> timeouts := timeouts s @ [(callback, delay)] \<rparr>, False)"

text \<open>\<open>const x = Math.random(); ...\<close>: the next random number is drawn and the rest runs with it.\<close>

definition withRandom :: "Env \<Rightarrow> (real \<Rightarrow> Action) \<Rightarrow> Action" where
  "withRandom env rest s = rest (random env (drawn s)) (s\<lparr> drawn := Suc (drawn s) \<rparr>)"

definition callOnPress :: "Env \<Rightarrow> Action" where
  "callOnPress env s =
     (case onPress env of
        None \<Rightarrow> (s, False)
      | Some throws \<Rightarrow> (s\<lparr> presses := Suc (presses s) \<rparr>, throws))"

definition startAnimation :: "Env \<Rightarrow> ValueName \<Rightarrow> Shared \<Rightarrow> Action" where
  "startAnimation env animatedValue animation =
     tryCatch (block [cancelAnimation env animatedValue, assign animatedValue animation])
              (warn ''Animation error:'')"

definition performJump :: "Env \<Rightarrow> Action" where
  "performJump env =
     tryCatch
       (block [
          cancelAnimation env JumpHeight,
          cancelAnimation env ArmWave,
          cancelAnimation env HeadTilt,
          cancelAnimation env FloatY,
          startAnimation env JumpHeight (Anim (Sequence [
            Timing (- 30) (Some 280) EaseOutQuad,
            Delay 50 (Timing (- 30) None EaseDefault),
            Timing 0 (Some 350) EaseInQuad,
            Timing (- 5) (Some 100) EaseDefault,
            Timing 0 (Some 150) EaseDefault])),
          startAnimation env FloatY (Anim (Sequence [
            Delay 30 (Timing (- 8) (Some 200) EaseDefault),
            Delay 50 (Timing 0 (Some 300) EaseDefault)])),
          startAnimation env ArmWave (Anim (Sequence [
            Timing 40 (Some 180) EaseOutEase,
            Timing (- 20) (Some 220) EaseInOutEase,
            Timing 5 (Some 150) EaseOutEase,
            Timing 0 (Some 100) EaseDefault])),
          startAnimation env HeadTilt (Anim (Sequence [
            Timing 5 (Some 150) EaseDefault,
            Timing (- 2) (Some 200) EaseDefault,
            Timing 0 (Some 150) EaseDefault])),
          callOnPress env])
       (block [
          warn ''Jump animation error:'',
          assign JumpHeight (Num 0),
          assign ArmWave (Num 1),
          assign HeadTilt (Num 1)])"

text \<open>
  The safety check at the start of the effect, \<open>x.value = x.value || d\<close>: a value that is
  zero becomes the default; assigning a number ends a running animation.
\<close>

fun orDefault :: "real \<Rightarrow> Shared \<Rightarrow> Shared" where
  "orDefault d (Num x) = Num (if x = 0 then d else x)"
| "orDefault d (Anim a) = Stopped"
| "orDefault d Stopped = Stopped"

definition safetyCheck :: "ValueName \<Rightarrow> real \<Rightarrow> Action" where
  "safetyCheck v d s = assign v (orDefault d (shared s v)) s"

definition setMounted :: "bool \<Rightarrow> Action" where
  "setMounted b s = (s\<lparr> isComponentMounted := b \<rparr>, False)"

definition setupIdleBreathing :: "Env \<Rightarrow> Action" where
  "setupIdleBreathing env =
     block [
       startAnimation env BodyBounce (Anim (Repeat (Sequence [
         Timing 1.2 (Some 2000) EaseInOutSin,
         Timing 0 (Some 2200) EaseInOutSin]) (- 1) True)),
       startAnimation env ArmWave (Anim (Repeat (Sequence [
         Timing 0.8 (Some 2100) EaseDefault,
         Timing (- 0.5) (Some 2300) EaseDefault]) (- 1) True))]"

text \<open>
  \<open>blink\<close> of \<open>setupEyeBlink\<close>. Its local flag \<open>activeAnimation\<close> is only cleared by the
  function that \<open>setupEyeBlink\<close> returns, which the effect drops, so it stays true. Both
  branches of the delay call \<open>Math.random()\<close> once.
\<close>

definition blink :: "Env \<Rightarrow> bool \<Rightarrow> Action" where
  "blink env isFullBlink s =
     (if \<not> isComponentMounted s then (s, False)
      else withRandom env (\<lambda>u.
             block [
               assign EyeBlink (Anim (Sequence (
                 [Timing (if isFullBlink then 0 else 0.4)
                         (Some (if isFullBlink then 70 else 40)) EaseInCubic]
                 @ (if isFullBlink then [Timing 0 (Some 30) EaseDefault] else [])
                 @ [Timing 1 (Some (if isFullBlink then 200 else 120)) EaseOutCubic]))),
               setTimeout (Blink (\<not> isFullBlink))
                 (if isFullBlink then fadd (fmul u 30000) 20000
                  else fadd (fmul u 0) 0)]) s)"

definition randomizeArmMovements :: "Env \<Rightarrow> Action" where
  "randomizeArmMovements env =
     block [
       cancelAnimation env ArmWave,
       withRandom env (\<lambda>u.
         if u < fl 0.9 then assign ArmWave (Num 0)
         else withRandom env (\<lambda>u1. withRandom env (\<lambda>u2.
                startAnimation env ArmWave (Anim (Sequence [
                  Timing (fsub (fmul u1 8) 3) (Some (fadd 2000 (fmul u2 1000))) EaseDefault,
                  Timing 0 (Some 1000) EaseDefault]))))),
       withRandom env (\<lambda>u. setTimeout RandomizeArmMovements (fadd 25000 (fmul u 10000)))]"

definition happyWave :: "Env \<Rightarrow> Action" where
  "happyWave env =
     block [
       withRandom env (\<lambda>u.
         if u < fl 0.95 then (\<lambda>s. (s, False))
         else withRandom env (\<lambda>u1.
                startAnimation env ArmWave (Anim (Sequence [
                  Timing (fsub (fmul u1 10) 3) (Some 1500) EaseDefault,
                  Timing 0 (Some 1000) EaseDefault])))),
       withRandom env (\<lambda>u. setTimeout HappyWave (fadd 28000 (fmul u 4000)))]"

definition changeGaze :: "Env \<Rightarrow> Action" where
  "changeGaze env =
     block [
       startAnimation env EyeBlink (Anim (Sequence [
         Timing 0.7 (Some 300) EaseDefault,
         Timing 1 (Some 400) EaseDefault])),
       withRandom env (\<lambda>u. setTimeout ChangeGaze (fadd 4000 (fmul u 6000)))]"

fun moodAnimations :: "Env \<Rightarrow> PaxtonMood \<Rightarrow> Action" where
  "moodAnimations env PaxtonHappy =
     block [
       startAnimation env BodyBounce (Anim (Repeat (Sequence [
         Timing (- 8) (Some 600) EaseOutQuad,
         Timing 0 (Some 800) EaseInOutSin]) (- 1) True)),
       startAnimation env MouthSmile (Anim (Timing 1.5 (Some 400) (EaseOutBack 1.8))),
       happyWave env]"
| "moodAnimations env PaxtonThinking =
     block [
       startAnimation env HeadTilt (Anim (Repeat (Sequence [
         Timing 7 (Some 2000) EaseDefault,
         Timing 3 (Some 1500) EaseDefault,
         Timing 7 (Some 2500) EaseDefault]) (- 1) True)),
       startAnimation env BodyBounce (Anim (Repeat (Timing 1.5 (Some 3000) EaseDefault) (- 1) True)),
       changeGaze env]"
| "moodAnimations env PaxtonExcited =
     block [
       startAnimation env BodyBounce (Anim (Repeat (Timing (- 5) (Some 100) EaseDefault) (- 1) True)),
       startAnimation env EyeBlink (Anim (Timing 1.2 (Some 200) EaseDefault)),
       startAnimation env MouthSmile (Anim (Timing 1.5 (Some 300) EaseDefault)),
       startAnimation env ArmWave (Anim (Repeat (Timing 30 (Some 3700) EaseDefault) (- 1) True))]"
| "moodAnimations env PaxtonShy =
     block [
       startAnimation env BodyBounce (Anim (Timing 10 (Some 800) EaseDefault)),
       startAnimation env HeadTilt (Anim (Timing 8 (Some 1000) EaseDefault)),
       startAnimation env ArmWave (Anim (Timing 25 (Some 600) EaseDefault))]"

text \<open>The body of the effect with dependency \<open>[mood]\<close>, and the cleanup it returns.\<close>

definition paxtonEffect :: "Env \<Rightarrow> PaxtonMood \<Rightarrow> Action" where
  "paxtonEffect env mood =
     block [
       safetyCheck BodyBounce 0, safetyCheck ArmWave 0, safetyCheck HeadTilt 0,
       safetyCheck FloatY 0, safetyCheck EyeBlink 1, safetyCheck LegSwing 0,
       safetyCheck BodyRotation 0, safetyCheck MouthSmile 0,
       safetyCheck CharacterRotation 0, safetyCheck JumpHeight 0,
       setMounted True,
       startAnimation env BodyBounce (Anim (Repeat (Sequence [
         Timing (- 3) (Some 1500) EaseInOutSin,
         Timing 0 (Some 1500) EaseInOutSin]) (- 1) True)),
       startAnimation env LegSwing (Num 0),
       setupIdleBreathing env,
       blink env True,
       randomizeArmMovements env,
       moodAnimations env mood]"

definition paxtonCleanup :: "Env \<Rightarrow> Action" where
  "paxtonCleanup env =
     block [
       setMounted False,
       tryCatch
         (block [
            cancelAnimation env BodyBounce, cancelAnimation env ArmWave,
            cancelAnimation env HeadTilt, cancelAnimation env FloatY,
            cancelAnimation env EyeBlink, cancelAnimation env LegSwing,
            cancelAnimation env BodyRotation, cancelAnimation env MouthSmile,
            cancelAnimation env CharacterRotation, cancelAnimation env JumpHeight])
         (warn ''Error cleaning up animations:'')]"

text \<open>
  The state of the first render: every shared value is 0 except \<open>eyeBlink\<close>, which is 1.
\<close>

definition paxtonInitial :: PaxtonState where
  "paxtonInitial =
     \<lparr> shared = (\<lambda>v. if v = EyeBlink then Num 1 else Num 0),
       isComponentMounted = True, drawn = 0, cancelled = [], warnings = [],
       timeouts = [], presses = 0, effectMood = None \<rparr>"

text \<open>
  The events of a component instance. A render with a mood runs the effect when the
  component mounts, and the cleanup followed by the effect when the mood has changed. A
  press reaches \<open>performJump\<close> while the component is rendered. A timer that
  \<open>setTimeout\<close> registered may fire at any later moment, also after the unmount,
  since no timer is ever cleared. The unmount runs the cleanup.
\<close>

datatype PaxtonEvent = Render PaxtonMood | Press | Timer Callback real | Unmount

fun fire :: "Env \<Rightarrow> Callback \<Rightarrow> Action" where
  "fire env (Blink isFullBlink) = blink env isFullBlink"
| "fire env RandomizeArmMovements = randomizeArmMovements env"
| "fire env HappyWave = happyWave env"
| "fire env ChangeGaze = changeGaze env"

definition setEffectMood :: "PaxtonMood option \<Rightarrow> Action" where
  "setEffectMood m s = (s\<lparr> effectMood := m \<rparr>, False)"

fun paxtonStep :: "Env \<Rightarrow> PaxtonEvent \<Rightarrow> Action" where
  "paxtonStep env (Render mood) s =
     (case effectMood s of
        None \<Rightarrow> block [setEffectMood (Some mood), paxtonEffect env mood] s
      | Some previous \<Rightarrow>
          if previous = mood then (s, False)
          else block [setEffectMood (Some mood), paxtonCleanup env, paxtonEffect env mood] s)"
| "paxtonStep env Press s =
     (if effectMood s = None then (s, False) else performJump env s)"
| "paxtonStep env (Timer callback delay) s =
     (if (callback, delay) \<in> set (timeouts s)
      then fire env callback (s\<lparr> timeouts := remove1 (callback, delay) (timeouts s) \<rparr>)
      else (s, False))"
| "paxtonStep env Unmount s =
     (if effectMood s = None then (s, False)
      else block [setEffectMood None, paxtonCleanup env] s)"

definition paxtonRun :: "Env \<Rightarrow> PaxtonEvent list \<Rightarrow> PaxtonState \<times> bool" where
  "paxtonRun env events = block (map (paxtonStep env) events) paxtonInitial"

text \<open>
  Sample environments: one in which nothing fails and \<open>Math.random()\<close> always returns
  0, one in which it always returns 0.9375, one whose \<open>onPress\<close> callback raises, and one
  in which \<open>cancelAnimation\<close> raises for \<open>headTilt\<close>.
\<close>

definition quiet :: Env where
  "quiet = \<lparr> random = (\<lambda>k. 0), cancelThrows = (\<lambda>v. False), onPress = None \<rparr>"

definition restless :: Env where
  "restless = \<lparr> random = (\<lambda>k. 15 / 16), cancelThrows = (\<lambda>v. False), onPress = None \<rparr>"

definition throwingPress :: Env where
  "throwingPress = \<lparr> random = (\<lambda>k. 0), cancelThrows = (\<lambda>v. False), onPress = Some True \<rparr>"

definition failingCancel :: Env where
  "failingCancel = \<lparr> random = (\<lambda>k. 0), cancelThrows = (\<lambda>v. v = HeadTilt), onPress = None \<rparr>"

section \<open>Properties of the numbers\<close>

text \<open>
  \<open>exponent\<close> is the binary exponent, so \<open>fl\<close> can be evaluated once the exponent of its
  argument is known; integers up to \<open>2^53\<close> are doubles, and \<open>2^53 + 1\<close> is a tie that
  rounds to \<open>2^53\<close>.
\<close>

lemma pow2_powr: "pow2 k = 2 powr (real_of_int k)"
  by (auto simp: pow2_def powr_realpow [symmetric] powr_minus field_simps)

lemma pow2_pos [simp]: "0 < pow2 k"
  by (simp add: pow2_powr)

lemma pow2_add: "pow2 (j + k) = pow2 j * pow2 k"
  by (simp add: pow2_powr powr_add)

lemma pow2_mono: "j \<le> k \<Longrightarrow> pow2 j \<le> pow2 k"
  by (simp add: pow2_powr)

lemma pow2_less_iff: "pow2 j < pow2 k \<longleftrightarrow> j < k"
  by (simp add: pow2_powr)

lemma pow2_le_iff: "pow2 j \<le> pow2 k \<longleftrightarrow> j \<le> k"
  by (simp add: pow2_powr)

lemma pow2_nat: "0 \<le> k \<Longrightarrow> pow2 k = of_int (2 ^ nat k)"
  by (simp add: pow2_def)

lemma exponent_bounds:
  assumes "0 < y"
  shows "pow2 (exponent y) \<le> y \<and> y < pow2 (exponent y + 1)"
proof (cases "1 \<le> y")
  case True
  let ?n = "\<lfloor>y\<rfloor>"
  have n: "0 < ?n" using True by simp
  have e: "exponent y = bitlen ?n - 1" using True by (simp add: exponent_def)
  from bitlen_bounds [OF n] have b: "2 ^ nat (bitlen ?n - 1) \<le> ?n" "?n < 2 ^ nat (bitlen ?n)" by auto
  have b1: "1 \<le> bitlen ?n" using n by (auto simp: bitlen_alt_def)
  have "real_of_int (2 ^ nat (bitlen ?n - 1)) \<le> real_of_int ?n" using b(1) by linarith
  also have "\<dots> \<le> y" by simp
  finally have lo: "pow2 (exponent y) \<le> y" using b1 by (simp add: e pow2_def)
  have "?n + 1 \<le> 2 ^ nat (bitlen ?n)" using b(2) by simp
  then have "real_of_int (?n + 1) \<le> real_of_int (2 ^ nat (bitlen ?n))" by linarith
  moreover have "y < real_of_int (?n + 1)" by linarith
  ultimately have "y < real_of_int (2 ^ nat (bitlen ?n))" by linarith
  moreover have "pow2 (exponent y + 1) = real_of_int (2 ^ nat (bitlen ?n))"
    using b1 by (simp add: e pow2_def)
  ultimately have "y < pow2 (exponent y + 1)" by simp
  with lo show ?thesis by simp
next
  case False
  then have y1: "y < 1" by simp
  let ?m = "\<lceil>1 / y\<rceil>"
  have "1 < 1 / y" using assms y1 by simp
  then have m: "0 < ?m - 1" by linarith
  let ?b = "bitlen (?m - 1)"
  have e: "exponent y = - ?b" using False by (simp add: exponent_def)
  from bitlen_bounds [OF m] have b: "2 ^ nat (?b - 1) \<le> ?m - 1" "?m - 1 < 2 ^ nat ?b" by auto
  have b1: "1 \<le> ?b" using m by (auto simp: bitlen_alt_def)
  have "?m \<le> 2 ^ nat ?b" using b(2) by simp
  then have "real_of_int ?m \<le> real_of_int (2 ^ nat ?b)" by linarith
  moreover have "1 / y \<le> real_of_int ?m" by (rule le_of_int_ceiling)
  ultimately have "1 / y \<le> real_of_int (2 ^ nat ?b)" by linarith
  then have "1 / y \<le> 2 ^ nat ?b" by simp
  then have "1 \<le> 2 ^ nat ?b * y" using assms by (simp add: field_simps)
  then have "1 / 2 ^ nat ?b \<le> y" by (simp add: field_simps)
  moreover have "pow2 (exponent y) = 1 / 2 ^ nat ?b"
    using b1 by (simp add: e pow2_def)
  ultimately have lo: "pow2 (exponent y) \<le> y" by simp
  have "real_of_int (2 ^ nat (?b - 1)) \<le> real_of_int (?m - 1)" using b(1) by linarith
  moreover have "real_of_int (?m - 1) < 1 / y" using ceiling_correct [of "1 / y"] by simp
  ultimately have "real_of_int (2 ^ nat (?b - 1)) < 1 / y" by linarith
  then have "2 ^ nat (?b - 1) < 1 / y" by simp
  then have "y * 2 ^ nat (?b - 1) < 1" using assms by (simp add: field_simps)
  then have "y < 1 / 2 ^ nat (?b - 1)" by (simp add: field_simps)
  moreover have "pow2 (exponent y + 1) = 1 / 2 ^ nat (?b - 1)"
    using b1 by (auto simp: e pow2_def nat_diff_distrib)
  ultimately show ?thesis using lo by simp
qed

lemma exponent_unique:
  assumes "pow2 e \<le> y" "y < pow2 (e + 1)"
  shows "exponent y = e"
proof -
  have y: "0 < y" using assms(1) pow2_pos [of e] by linarith
  from exponent_bounds [OF y] have b: "pow2 (exponent y) \<le> y" "y < pow2 (exponent y + 1)" by auto
  have "pow2 e < pow2 (exponent y + 1)" using assms(1) b(2) by linarith
  then have "e < exponent y + 1" by (simp add: pow2_less_iff)
  moreover have "pow2 (exponent y) < pow2 (e + 1)" using assms(2) b(1) by linarith
  then have "exponent y < e + 1" by (simp add: pow2_less_iff)
  ultimately show ?thesis by simp
qed

lemma roundHalfEven_int [simp]: "roundHalfEven (of_int k) = k"
  by (simp add: roundHalfEven_def)



lemma fl_eval:
  assumes "pow2 e \<le> \<bar>x\<bar>" "\<bar>x\<bar> < pow2 (e + 1)" "- 1022 \<le> e"
  shows "fl x = of_int (roundHalfEven (x / pow2 (e - 52))) * pow2 (e - 52)"
proof -
  have "0 < \<bar>x\<bar>" using assms(1) pow2_pos [of e] by linarith
  then have "x \<noteq> 0" by auto
  moreover have "ulp x = pow2 (e - 52)"
    using exponent_unique [OF assms(1,2)] assms(3) by (simp add: ulp_def)
  ultimately show ?thesis by (simp add: fl_def)
qed

lemma fl_int:
  assumes "\<bar>k\<bar> \<le> 2 ^ 53"
  shows "fl (of_int k) = of_int k"
proof (cases "k = 0")
  case True
  then show ?thesis by (simp add: fl_def)
next
  case False
  let ?y = "\<bar>real_of_int k\<bar>"
  let ?e = "exponent ?y"
  have y: "1 \<le> ?y" using False by simp
  then have y0: "0 < ?y" by linarith
  from exponent_bounds [OF y0] have b: "pow2 ?e \<le> ?y" "?y < pow2 (?e + 1)" by auto
  have "pow2 0 < pow2 (?e + 1)" using y b(2) by (simp add: pow2_def)
  then have e0: "0 \<le> ?e" by (simp add: pow2_less_iff)
  have "real_of_int \<bar>k\<bar> \<le> real_of_int (2 ^ 53)" using assms by linarith
  then have y53: "?y \<le> pow2 53" by (simp add: pow2_def)
  then have "pow2 ?e \<le> pow2 53" using b(1) by linarith
  then have e53: "?e \<le> 53" by (simp add: pow2_le_iff)
  have u: "ulp (of_int k) = pow2 (?e - 52)" using e0 by (simp add: ulp_def)
  have "\<exists>j. real_of_int k / pow2 (?e - 52) = of_int j"
  proof (cases "?e \<le> 52")
    case True
    have "real_of_int k / pow2 (?e - 52) = real_of_int k * pow2 (52 - ?e)"
      using pow2_add [of "?e - 52" "52 - ?e"] by (simp add: pow2_def field_simps)
    also have "\<dots> = of_int (k * 2 ^ nat (52 - ?e))" using True by (simp add: pow2_nat)
    finally show ?thesis by blast
  next
    case False
    with e53 have e: "?e = 53" by simp
    have "pow2 53 \<le> ?y" using b(1) e by simp
    with y53 have "?y = pow2 53" by linarith
    then have "real_of_int \<bar>k\<bar> = real_of_int (2 ^ 53)" by (simp add: pow2_def)
    then have "\<bar>k\<bar> = 2 ^ 53" by linarith
    then have "k = 2 ^ 53 \<or> k = - (2 ^ 53)" by linarith
    then have "2 dvd k" by auto
    then have "real_of_int (k div 2) = real_of_int k / 2" by (simp add: real_of_int_div)
    moreover have "pow2 (?e - 52) = 2" by (simp add: e pow2_def)
    ultimately have "real_of_int k / pow2 (?e - 52) = of_int (k div 2)" by simp
    then show ?thesis by blast
  qed
  then obtain j where j: "real_of_int k / pow2 (?e - 52) = of_int j" by blast
  then have "of_int j * pow2 (?e - 52) = real_of_int k"
    using pow2_pos [of "?e - 52"] by (simp add: field_simps)
  then show ?thesis using False j by (simp add: fl_def u)
qed

lemma fl_09: "fl (9 / 10) = 8106479329266893 / 9007199254740992"
  by (subst fl_eval [of "- 1"]) (simp_all add: pow2_def roundHalfEven_def)



lemma ulp_pos [simp]: "0 < ulp x"
  by (simp add: ulp_def)

lemma ulp_nonzero [simp]: "ulp x \<noteq> 0"
  using ulp_pos [of x] by linarith







lemma blink_delay_check:
  "fadd 2000 (fmul (3752999689475413 / 4503599627370496) 2000)
     = 8063085270357333 / 2199023255552"
proof -
  have "fmul (3752999689475413 / 4503599627370496) 2000 = 3665038759253333 / 2199023255552"
    unfolding fmul_def
    by (subst fl_eval [of 10]) (simp_all add: pow2_def roundHalfEven_def)
  then show ?thesis
    unfolding fadd_def
    by (subst fl_eval [of 11]) (simp_all add: pow2_def roundHalfEven_def)
qed

lemma fl_zero [simp]: "fl 0 = 0"
  by (simp add: fl_def)

lemma fl_numeral [simp]:
  "(numeral n :: int) \<le> 9007199254740992 \<Longrightarrow> fl (numeral n) = numeral n"
  using fl_int [of "numeral n"] by simp

lemma fl_095: "fl (19 / 20) = 4278419646001971 / 4503599627370496"
  by (subst fl_eval [of "- 1"]) (simp_all add: pow2_def roundHalfEven_def)

lemma fl_thresholds_pos [simp]: "0 < fl (9 / 10)" "0 < fl (19 / 20)"
  by (simp_all add: fl_09 fl_095)

lemma fl_quarters:
  "fl (15 / 2) = 15 / 2" "fl (9 / 2) = 9 / 2" "fl (31 / 4) = 31 / 4" "fl (19 / 4) = 19 / 4"
  by (subst fl_eval [of 2], simp_all add: pow2_def roundHalfEven_def)+




section \<open>Properties of the decisions screen\<close>

lemma dropWhile_all_iff: "(\<forall>x\<in>set (dropWhile P xs). P x) \<longleftrightarrow> (\<forall>x\<in>set xs. P x)"
  by (induction xs) auto

lemma trim_empty_iff: "trim s = [] \<longleftrightarrow> list_all isWhiteSpace s"
  by (simp add: trim_def list_all_iff dropWhile_all_iff)

lemma steps_lengths [simp]:
  "length (fw_steps stoicFork) = 4" "length (fw_steps middleWay) = 4"
  "length (fw_steps wuWeiDecision) = 4" "length (fw_steps socraticMethod) = 4"
  by (simp_all add: stoicFork_def middleWay_def wuWeiDecision_def socraticMethod_def)

lemma frameworks_steps: "i < length frameworks \<Longrightarrow> length (fw_steps (frameworks ! i)) = 4"
  by (auto simp: frameworks_def nth_Cons' less_Suc_eq numeral_eq_Suc)

lemma stepEffect_fields [simp]:
  "selectedFramework (stepEffect b s) = selectedFramework s"
  "currentStep (stepEffect b s) = currentStep s"
  "responses (stepEffect b s) = responses s"
  "showResults (stepEffect b s) = showResults s"
  "decision (stepEffect b s) = decision s"
  "inputText (stepEffect b s) = inputText s"
  by (simp_all add: stepEffect_def)

lemma stepInvariant_stepEffect [simp]: "stepInvariant (stepEffect b s) = stepInvariant s"
  by (simp add: stepInvariant_def split: option.splits)

lemma inv_init: "stepInvariant initialDecisions"
  by (simp add: stepInvariant_def initialDecisions_def)

lemma inv_select: "i < length frameworks \<Longrightarrow> stepInvariant (handleFrameworkSelect (frameworks ! i) s)"
  using frameworks_steps [of i] by (auto simp: stepInvariant_def handleFrameworkSelect_def)

lemma inv_next: "stepInvariant s \<Longrightarrow> selectedFramework s \<noteq> None \<Longrightarrow> \<not> showResults s \<Longrightarrow> stepInvariant (handleNextStep r s)"
  by (auto simp: stepInvariant_def handleNextStep_def Let_def split: option.splits)

lemma inv_reset: "stepInvariant (resetDecision s)"
  by (simp add: stepInvariant_def resetDecision_def)

lemma inv_dispatch: "stepInvariant s \<Longrightarrow> stepInvariant (dispatch s e)"
  by (cases e) (auto simp: dispatch_def inv_select inv_next inv_reset, auto simp: stepInvariant_def)

lemma inv_foldl: "stepInvariant s \<Longrightarrow> stepInvariant (foldl dispatch s es)"
  by (induction es arbitrary: s) (simp_all add: inv_dispatch)

lemma inv_run: "stepInvariant (run es)"
  by (simp add: run_def inv_foldl inv_init)

text \<open>
  Claim C9. In the decisions screen, whenever a framework is selected, the step counter
  satisfies \<open>0 \<le> currentStep < selectedFramework.steps.length\<close> after every event the
  rendered screen can deliver (entering text, selecting a framework, next step, either
  reset button), and the results are shown exactly when one response has been recorded
  per step: \<open>showResults\<close> holds if and only if \<open>responses.length\<close> equals
  \<open>selectedFramework.steps.length\<close>.
\<close>

theorem step_invariant:
  "selectedFramework (run es) = Some fw \<Longrightarrow>
     0 \<le> currentStep (run es) \<and> currentStep (run es) < int (length (fw_steps fw))
     \<and> (showResults (run es) \<longleftrightarrow> length (responses (run es)) = length (fw_steps fw))"
  using inv_run [of es] by (auto simp: stepInvariant_def split: if_splits)

theorem step_invariant_witness:
  "selectedFramework (run [ChangeDecision [0x41], PressFramework 1, PressNext, PressNext])
     = Some middleWay
   \<and> 0 \<le> currentStep (run [ChangeDecision [0x41], PressFramework 1, PressNext, PressNext])
   \<and> currentStep (run [ChangeDecision [0x41], PressFramework 1, PressNext, PressNext])
       < int (length (fw_steps middleWay))
   \<and> (showResults (run [ChangeDecision [0x41], PressFramework 1, PressNext, PressNext])
       \<longleftrightarrow> length (responses (run [ChangeDecision [0x41], PressFramework 1, PressNext, PressNext]))
           = length (fw_steps middleWay))"
proof -
  have h: "selectedFramework (run [ChangeDecision [0x41], PressFramework 1, PressNext, PressNext])
             = Some middleWay"
    by (simp add: run_def dispatch_def cardDisabled_def trim_def isWhiteSpace_def truthy_def
        handleFrameworkSelect_def handleNextStep_def initialDecisions_def frameworks_def)
  show ?thesis using h step_invariant [OF h] by simp
qed

lemma answer_step:
  assumes "selectedFramework s = Some fw" "\<not> showResults s"
  shows "foldl dispatch s (answer r) = stepEffect (s\<lparr>inputText := r\<rparr>) (handleNextStep r (s\<lparr>inputText := r\<rparr>))"
  using assms by (simp add: answer_def dispatch_def stepEffect_def)

lemma handleNextStep_fields:
  assumes "selectedFramework s = Some fw"
  shows "selectedFramework (handleNextStep r s) = Some fw"
    and "responses (handleNextStep r s) = responses s @ [r]"
    and "showResults (handleNextStep r s) = (showResults s \<or> \<not> currentStep s < int (length (fw_steps fw)) - 1)"
    and "currentStep (handleNextStep r s) = (if currentStep s < int (length (fw_steps fw)) - 1 then currentStep s + 1 else currentStep s)"
  using assms by (simp_all add: handleNextStep_def Let_def)

lemma answers_progress:
  assumes "selectedFramework s = Some fw" "\<not> showResults s"
    and "currentStep s = int (length (responses s))"
    and "length (responses s) < length (fw_steps fw)"
    and "length (responses s) + length rs \<le> length (fw_steps fw)"
  shows "selectedFramework (foldl dispatch s (concat (map answer rs))) = Some fw
       \<and> responses (foldl dispatch s (concat (map answer rs))) = responses s @ rs
       \<and> (showResults (foldl dispatch s (concat (map answer rs)))
            \<longleftrightarrow> length (responses s) + length rs = length (fw_steps fw))
       \<and> currentStep (foldl dispatch s (concat (map answer rs)))
            = int (min (length (responses s) + length rs) (length (fw_steps fw) - 1))"
  using assms
proof (induction rs arbitrary: s)
  case Nil
  then show ?case by auto
next
  case (Cons r rs)
  let ?s1 = "foldl dispatch s (answer r)"
  have s1: "?s1 = stepEffect (s\<lparr>inputText := r\<rparr>) (handleNextStep r (s\<lparr>inputText := r\<rparr>))"
    using Cons.prems(1,2) by (rule answer_step)
  have sel: "selectedFramework (s\<lparr>inputText := r\<rparr>) = Some fw"
    using Cons.prems(1) by simp
  note f = handleNextStep_fields [OF sel, of r]
  show ?case
  proof (cases "length (responses s) + 1 < length (fw_steps fw)")
    case True
    have "selectedFramework ?s1 = Some fw" "\<not> showResults ?s1"
      "currentStep ?s1 = int (length (responses ?s1))"
      "length (responses ?s1) < length (fw_steps fw)"
      "length (responses ?s1) + length rs \<le> length (fw_steps fw)"
      "responses ?s1 = responses s @ [r]"
      using True Cons.prems by (auto simp: s1 f)
    from Cons.IH [OF this(1-5)] this(6) show ?thesis
      by (simp add: foldl_append)
  next
    case False
    have rs: "rs = []"
      using False Cons.prems(5) by (cases rs) simp_all
    have last: "length (responses s) + 1 = length (fw_steps fw)"
      using False Cons.prems(4) by simp
    show ?thesis using last Cons.prems(2,3) by (auto simp: rs s1 f)
  qed
qed

text \<open>
  Claim C1 (amended). The decisions screen does implement a small state machine. After a
  non-blank decision has been entered and the framework card \<open>i\<close> pressed, answering
  the steps one after the other records each response in order, advances \<open>currentStep\<close>
  by one per answer up to the last step, and switches to the results view exactly when
  the last step has been answered.
\<close>

theorem step_progression:
  assumes "\<not> list_all isWhiteSpace d" and "i < length frameworks"
    and "length rs \<le> length (fw_steps (frameworks ! i))"
  shows "selectedFramework (run (ChangeDecision d # PressFramework i # concat (map answer rs))) = Some (frameworks ! i)
       \<and> responses (run (ChangeDecision d # PressFramework i # concat (map answer rs))) = rs
       \<and> (showResults (run (ChangeDecision d # PressFramework i # concat (map answer rs)))
            \<longleftrightarrow> length rs = length (fw_steps (frameworks ! i)))
       \<and> currentStep (run (ChangeDecision d # PressFramework i # concat (map answer rs)))
            = int (min (length rs) (length (fw_steps (frameworks ! i)) - 1))"
proof -
  let ?s = "dispatch (dispatch initialDecisions (ChangeDecision d)) (PressFramework i)"
  have d: "trim d \<noteq> []" using assms(1) by (simp add: trim_empty_iff)
  have s: "?s = stepEffect (initialDecisions\<lparr>decision := d\<rparr>) (handleFrameworkSelect (frameworks ! i) (initialDecisions\<lparr>decision := d\<rparr>))"
    using d assms(2) by (simp add: dispatch_def initialDecisions_def cardDisabled_def truthy_def stepEffect_def)
  have "selectedFramework ?s = Some (frameworks ! i)" "\<not> showResults ?s"
    "currentStep ?s = int (length (responses ?s))"
    "length (responses ?s) < length (fw_steps (frameworks ! i))"
    "length (responses ?s) + length rs \<le> length (fw_steps (frameworks ! i))"
    "responses ?s = []"
    using assms(3) frameworks_steps [OF assms(2)] by (simp_all add: s handleFrameworkSelect_def)
  from answers_progress [OF this(1-5)] this(6) show ?thesis
    by (simp add: run_def)
qed

theorem step_progression_witness:
  "\<not> list_all isWhiteSpace [0x41] \<and> (2::nat) < length frameworks
   \<and> length [[0x61], [0x62::nat]] \<le> length (fw_steps (frameworks ! 2))
   \<and> selectedFramework (run (ChangeDecision [0x41] # PressFramework 2 # concat (map answer [[0x61], [0x62]])))
       = Some (frameworks ! 2)
   \<and> responses (run (ChangeDecision [0x41] # PressFramework 2 # concat (map answer [[0x61], [0x62]])))
       = [[0x61], [0x62]]
   \<and> (showResults (run (ChangeDecision [0x41] # PressFramework 2 # concat (map answer [[0x61], [0x62]])))
       \<longleftrightarrow> length [[0x61], [0x62::nat]] = length (fw_steps (frameworks ! 2)))
   \<and> currentStep (run (ChangeDecision [0x41] # PressFramework 2 # concat (map answer [[0x61], [0x62]])))
       = int (min (length [[0x61], [0x62::nat]]) (length (fw_steps (frameworks ! 2)) - 1))"
proof -
  have h1: "\<not> list_all isWhiteSpace [0x41]" by (simp add: isWhiteSpace_def)
  have h2: "(2::nat) < length frameworks" by (simp add: frameworks_def)
  have h3: "length [[0x61], [0x62::nat]] \<le> length (fw_steps (frameworks ! 2))"
    by (simp add: frameworks_def)
  show ?thesis using h1 h2 h3 step_progression [OF h1 h2 h3] by blast
qed

text \<open>
  Claim C1 as stated says that no sequence of UI events drives a multi-step stateful
  progression, that is, that every event sequence leaves the screen at its first step with
  no results state. Two next-step events move the counter to 2, and four of them reach the
  results state.
\<close>

theorem step_progression_counterexample:
  "currentStep (run [ChangeDecision [0x41], PressFramework 0, PressNext, PressNext]) = 2
   \<and> \<not> showResults (run [ChangeDecision [0x41], PressFramework 0, PressNext, PressNext])
   \<and> showResults
        (run [ChangeDecision [0x41], PressFramework 0, PressNext, PressNext, PressNext, PressNext])"
  by (simp add: run_def dispatch_def cardDisabled_def trim_def isWhiteSpace_def truthy_def
      handleFrameworkSelect_def handleNextStep_def initialDecisions_def frameworks_def)

text \<open>
  Claim C10. In the decisions screen, while the entered decision text is empty or consists
  only of whitespace, every framework card is disabled: no press on a card is delivered,
  and while no framework is selected no event at all selects one, so the step flow cannot
  start until a non-blank decision has been entered.
\<close>

theorem cards_disabled_while_blank:
  "list_all isWhiteSpace (decision s) \<Longrightarrow>
     cardDisabled s \<and> (\<forall>i. \<not> delivered s (PressFramework i))
     \<and> (selectedFramework s = None \<longrightarrow> selectedFramework (dispatch s e) = None)"
  by (cases e) (auto simp: cardDisabled_def truthy_def trim_empty_iff dispatch_def)

theorem cards_disabled_while_blank_witness:
  "list_all isWhiteSpace (decision (initialDecisions\<lparr>decision := [0x20, 0x9, 0xA0]\<rparr>))
   \<and> cardDisabled (initialDecisions\<lparr>decision := [0x20, 0x9, 0xA0]\<rparr>)
   \<and> \<not> delivered (initialDecisions\<lparr>decision := [0x20, 0x9, 0xA0]\<rparr>) (PressFramework 0)
   \<and> selectedFramework (initialDecisions\<lparr>decision := [0x20, 0x9, 0xA0]\<rparr>) = None
   \<and> selectedFramework
        (dispatch (initialDecisions\<lparr>decision := [0x20, 0x9, 0xA0]\<rparr>) (PressFramework 0)) = None"
proof -
  have h: "list_all isWhiteSpace (decision (initialDecisions\<lparr>decision := [0x20, 0x9, 0xA0]\<rparr>))"
    by (simp add: isWhiteSpace_def)
  have n: "selectedFramework (initialDecisions\<lparr>decision := [0x20, 0x9, 0xA0]\<rparr>) = None"
    by (simp add: initialDecisions_def)
  show ?thesis
    using h n cards_disabled_while_blank [OF h, of "PressFramework 0"] by blast
qed

text \<open>Conversely a card is enabled as soon as the decision has a non-whitespace character.\<close>

lemma cards_enabled: "\<not> list_all isWhiteSpace (decision s) \<Longrightarrow> \<not> cardDisabled s"
  by (simp add: cardDisabled_def truthy_def trim_empty_iff)

section \<open>Properties of the habit and preference toggles\<close>

lemma toggleHabitCompletion_Cons:
  "toggleHabitCompletion k (h # hs) = toggleHabitCompletion k [h] @ toggleHabitCompletion k hs"
  by (simp add: toggleHabitCompletion_def)














section \<open>Properties of the store\<close>

text \<open>Every handler only adds objects; the only object it updates is the array it just created.\<close>

lemma prefix_alloc: "prefix h (fst (alloc h ob))"
  by (simp add: alloc_def)

lemma prefix_update: "prefix h0 h \<Longrightarrow> length h0 \<le> a \<Longrightarrow> prefix h0 (h[a := x])"
  by (auto simp: prefix_def list_update_append)

lemma appendElem_prefix:
  "appendElem h a v = Some h' \<Longrightarrow> prefix h0 h \<Longrightarrow> length h0 \<le> a \<Longrightarrow> prefix h0 h'"
  by (auto simp: appendElem_def prefix_update split: option.splits Obj.splits)

lemma mapFill_prefix:
  assumes cb: "\<And>h r h' v. f h r = Some (h', v) \<Longrightarrow> prefix h h'"
  shows "mapFill f a rs h = Some h' \<Longrightarrow> prefix h0 h \<Longrightarrow> length h0 \<le> a \<Longrightarrow> prefix h0 h'"
proof (induction rs arbitrary: h)
  case Nil
  then show ?case by simp
next
  case (Cons r rs)
  from Cons.prems(1) obtain h1 v h2 where
    f: "f h r = Some (h1, v)" and ap: "appendElem h1 a v = Some h2" and rest: "mapFill f a rs h2 = Some h'"
    by (auto split: option.splits)
  from cb [OF f] Cons.prems(2) have "prefix h0 h1" by (blast intro: prefix_order.trans)
  with ap Cons.prems(3) have "prefix h0 h2" by (blast intro: appendElem_prefix)
  with rest Cons.prems(3) show ?case by (blast intro: Cons.IH)
qed

lemma arrayMap_prefix:
  assumes cb: "\<And>h r h' v. f h r = Some (h', v) \<Longrightarrow> prefix h h'"
    and m: "arrayMap f h src = Some (h', a)"
  shows "prefix h h'"
proof -
  from m obtain rs where fill: "mapFill f (length h) rs (h @ [ArrObj []]) = Some h'"
    by (auto simp: arrayMap_def alloc_def split: option.splits Obj.splits)
  show ?thesis
    by (rule mapFill_prefix [OF cb fill]) simp_all
qed

lemma toggleHabitCallback_prefix: "toggleHabitCallback k h r = Some (h', v) \<Longrightarrow> prefix h h'"
  by (auto simp: toggleHabitCallback_def alloc_def split: option.splits Obj.splits if_splits)

lemma togglePreferenceCallback_prefix: "togglePreferenceCallback k h r = Some (h', v) \<Longrightarrow> prefix h h'"
  by (auto simp: togglePreferenceCallback_def alloc_def split: option.splits Obj.splits if_splits)

lemma toggleSettingStore_prefix: "toggleSettingStore key h r = Some (h', v) \<Longrightarrow> prefix h h'"
  by (auto simp: toggleSettingStore_def alloc_def split: option.splits Obj.splits)

lemma toggleHabit_prefix: "arrayMap (toggleHabitCallback k) h src = Some (h', a) \<Longrightarrow> prefix h h'"
  using arrayMap_prefix [of "toggleHabitCallback k" h src h' a] toggleHabitCallback_prefix by blast

lemma togglePreference_prefix:
  "arrayMap (togglePreferenceCallback k) h src = Some (h', a) \<Longrightarrow> prefix h h'"
  using arrayMap_prefix [of "togglePreferenceCallback k" h src h' a] togglePreferenceCallback_prefix
  by blast

lemma handleData_prefix: "handleData e (h, refs) = Some (h', refs') \<Longrightarrow> prefix h h'"
  by (cases e)
    (auto simp: alloc_def split: option.splits Obj.splits if_splits
      dest: toggleHabit_prefix togglePreference_prefix toggleSettingStore_prefix)

lemma runData_prefix: "runData es (h, refs) = Some (h', refs') \<Longrightarrow> prefix h h'"
proof (induction es arbitrary: h refs)
  case Nil
  then show ?case by simp
next
  case (Cons e es)
  from Cons.prems obtain h1 refs1 where
    e: "handleData e (h, refs) = Some (h1, refs1)" and r: "runData es (h1, refs1) = Some (h', refs')"
    by (auto split: option.splits)
  from handleData_prefix [OF e] Cons.IH [OF r] show ?case by (rule prefix_order.trans)
qed

text \<open>The handlers over the store compute what the handlers on values compute.\<close>

lemma deref_prefix: "prefix h h' \<Longrightarrow> deref h r = Some ob \<Longrightarrow> deref h' r = Some ob"
  by (auto simp: prefix_def deref_def nth_append split: if_splits)

lemma elemsAt_prefix: "prefix h h' \<Longrightarrow> elemsAt con h rs xs \<Longrightarrow> elemsAt con h' rs xs"
  unfolding elemsAt_def by (erule list_all2_mono) (rule deref_prefix)

lemma arrayAt_prefix:
  assumes p: "prefix h h'" and a: "arrayAt con h a xs"
  shows "arrayAt con h' a xs"
proof -
  from a obtain rs where s: "deref h a = Some (ArrObj rs)" and e: "elemsAt con h rs xs"
    by (auto simp: arrayAt_def split: option.splits Obj.splits)
  from deref_prefix [OF p s] elemsAt_prefix [OF p e] show ?thesis
    by (simp add: arrayAt_def)
qed

lemma deref_update_other: "r \<noteq> a \<Longrightarrow> deref (h[a := ob]) r = deref h r"
  by (simp add: deref_def)

lemma deref_update_same: "a < length h \<Longrightarrow> deref (h[a := ob]) a = Some ob"
  by (simp add: deref_def)

lemma elemsAt_update:
  assumes na: "\<And>x vs. con x \<noteq> ArrObj vs" and a: "deref h a = Some (ArrObj acc)"
    and e: "elemsAt con h rs xs"
  shows "elemsAt con (h[a := ob]) rs xs"
  using e unfolding elemsAt_def
proof (rule list_all2_mono)
  fix r x assume "deref h r = Some (con x)"
  moreover from this a na [of x acc] have "r \<noteq> a" by auto
  ultimately show "deref (h[a := ob]) r = Some (con x)" by (simp add: deref_update_other)
qed

lemma mapFill_refines:
  assumes na: "\<And>x vs. con x \<noteq> ArrObj vs"
    and cb: "\<And>h r x. deref h r = Some (con x) \<Longrightarrow>
               \<exists>h1 v. f h r = Some (h1, v) \<and> prefix h h1 \<and> deref h1 v = Some (con (g x))"
  shows "deref h a = Some (ArrObj acc) \<Longrightarrow> elemsAt con h acc dn \<Longrightarrow> elemsAt con h rs xs \<Longrightarrow>
         \<exists>h' vs. mapFill f a rs h = Some h' \<and> deref h' a = Some (ArrObj vs)
                \<and> elemsAt con h' vs (dn @ map g xs)"
proof (induction rs arbitrary: h acc dn xs)
  case Nil
  then show ?case by (simp add: elemsAt_def)
next
  case (Cons r rs)
  from Cons.prems(3) obtain x xs' where xs: "xs = x # xs'"
    and r: "deref h r = Some (con x)" and rest: "elemsAt con h rs xs'"
    by (auto simp: elemsAt_def list_all2_Cons1)
  from cb [OF r] obtain h1 v where f: "f h r = Some (h1, v)" and p: "prefix h h1"
    and v: "deref h1 v = Some (con (g x))" by blast
  have a1: "deref h1 a = Some (ArrObj acc)" using p Cons.prems(1) by (rule deref_prefix)
  then have alen: "a < length h1" by (simp add: deref_def split: if_splits)
  let ?h2 = "h1[a := ArrObj (acc @ [v])]"
  have ap: "appendElem h1 a v = Some ?h2" using a1 by (simp add: appendElem_def)
  have a2: "deref ?h2 a = Some (ArrObj (acc @ [v]))" using alen by (rule deref_update_same)
  have "elemsAt con h1 (acc @ [v]) (dn @ [g x])"
    using elemsAt_prefix [OF p Cons.prems(2)] v by (simp add: elemsAt_def list_all2_appendI)
  then have d2: "elemsAt con ?h2 (acc @ [v]) (dn @ [g x])"
    by (rule elemsAt_update [OF na a1])
  have r2: "elemsAt con ?h2 rs xs'"
    using elemsAt_prefix [OF p rest] by (rule elemsAt_update [OF na a1])
  from Cons.IH [OF a2 d2 r2] show ?case
    by (simp add: f ap xs)
qed

lemma arrayMap_refines:
  assumes na: "\<And>x vs. con x \<noteq> ArrObj vs"
    and cb: "\<And>h r x. deref h r = Some (con x) \<Longrightarrow>
               \<exists>h1 v. f h r = Some (h1, v) \<and> prefix h h1 \<and> deref h1 v = Some (con (g x))"
    and src: "arrayAt con h src xs"
  shows "\<exists>h' a. arrayMap f h src = Some (h', a) \<and> arrayAt con h' a (map g xs)"
proof -
  from src obtain rs where s: "deref h src = Some (ArrObj rs)" and e: "elemsAt con h rs xs"
    by (auto simp: arrayAt_def split: option.splits Obj.splits)
  let ?h0 = "h @ [ArrObj []]"
  have p: "prefix h ?h0" by simp
  have a0: "deref ?h0 (length h) = Some (ArrObj [])" by (simp add: deref_def)
  have d0: "elemsAt con ?h0 [] []" by (simp add: elemsAt_def)
  from mapFill_refines [of con f g, OF na cb a0 d0 elemsAt_prefix [OF p e]]
  obtain h' vs where "mapFill f (length h) rs ?h0 = Some h'"
    "deref h' (length h) = Some (ArrObj vs)" "elemsAt con h' vs (map g xs)"
    by auto
  then show ?thesis by (simp add: arrayMap_def alloc_def s arrayAt_def)
qed

lemma toggleHabit_refines:
  assumes "arrayAt HabitObj h src hs"
  shows "\<exists>h' a. arrayMap (toggleHabitCallback k) h src = Some (h', a)
               \<and> arrayAt HabitObj h' a (toggleHabitCompletion k hs)"
  unfolding toggleHabitCompletion_def
proof (rule arrayMap_refines [OF _ _ assms])
  show "HabitObj x \<noteq> ArrObj vs" for x vs by simp
next
  fix h r x
  assume "deref h r = Some (HabitObj x)"
  then show "\<exists>h1 v. toggleHabitCallback k h r = Some (h1, v) \<and> prefix h h1 \<and>
       deref h1 v = Some (HabitObj (if h_id x = k
          then x\<lparr>h_completed := \<not> h_completed x,
                h_streak := if \<not> h_completed x then numberAdd (h_streak x) (Finite 1)
                            else numberSub (h_streak x) (Finite 1)\<rparr>
          else x))"
    by (simp add: toggleHabitCallback_def alloc_def deref_def)
qed

lemma togglePreference_refines:
  assumes "arrayAt PrefObj h src ps"
  shows "\<exists>h' a. arrayMap (togglePreferenceCallback k) h src = Some (h', a)
               \<and> arrayAt PrefObj h' a (togglePreference k ps)"
  unfolding togglePreference_def
proof (rule arrayMap_refines [OF _ _ assms])
  show "PrefObj x \<noteq> ArrObj vs" for x vs by simp
next
  fix h r x
  assume "deref h r = Some (PrefObj x)"
  then show "\<exists>h1 v. togglePreferenceCallback k h r = Some (h1, v) \<and> prefix h h1 \<and>
       deref h1 v = Some (PrefObj (if p_id x = k then x\<lparr>p_selected := \<not> p_selected x\<rparr> else x))"
    by (simp add: togglePreferenceCallback_def alloc_def deref_def)
qed

lemma refOf_prefix: "prefix h h' \<Longrightarrow> refOf con h r x \<Longrightarrow> refOf con h' r x"
  by (cases "(con, h, r, x)" rule: refOf.cases) (auto dest: deref_prefix)

lemma represents_prefix:
  "represents (h, refs) d \<Longrightarrow> prefix h h' \<Longrightarrow> represents (h', refs) d"
  by (simp add: represents_def arrayAt_prefix deref_prefix refOf_prefix)

lemma arrayAt_nth:
  assumes "arrayAt con h a xs"
  shows "\<exists>rs. deref h a = Some (ArrObj rs) \<and> length rs = length xs
              \<and> (\<forall>i < length xs. deref h (rs ! i) = Some (con (xs ! i)))"
proof -
  from assms obtain rs where s: "deref h a = Some (ArrObj rs)" and e: "elemsAt con h rs xs"
    by (auto simp: arrayAt_def split: option.splits Obj.splits)
  from e have "length rs = length xs"
    and "\<forall>i < length xs. deref h (rs ! i) = Some (con (xs ! i))"
    by (auto simp: elemsAt_def list_all2_conv_all_nth)
  with s show ?thesis by blast
qed

lemma handleData_refines:
  assumes "represents st d"
  shows "\<exists>st'. handleData e st = Some st' \<and> represents st' (applyData e d) \<and> prefix (fst st) (fst st')"
proof (cases st)
  case (Pair h refs)
  with assms have rep: "represents (h, refs) d" by simp
  then have hb: "arrayAt HabitObj h (habitsRef refs) (habits d)"
    and pf: "arrayAt PrefObj h (preferencesRef refs) (preferences d)"
    and se: "deref h (settingsRef refs) = Some (SettingsObj (settings d))"
    and fw: "arrayAt FrameworkObj h frameworksRef frameworks"
    and ph: "arrayAt PhilosophyObj h philosophersRef philosophers"
    and re: "deref h (responsesRef refs) = Some (StringsObj (responses (decisions d)))"
    by (simp_all add: represents_def)
  show ?thesis
  proof (cases e)
    case (ToggleHabit k)
    from toggleHabit_refines [OF hb, of k] obtain h' a where
      m: "arrayMap (toggleHabitCallback k) h (habitsRef refs) = Some (h', a)"
      and r: "arrayAt HabitObj h' a (toggleHabitCompletion k (habits d))" by blast
    have p: "prefix h h'" using m by (rule toggleHabit_prefix)
    show ?thesis
      using m r p represents_prefix [OF rep p]
      by (simp add: Pair ToggleHabit represents_def)
  next
    case (TogglePreference k)
    from togglePreference_refines [OF pf, of k] obtain h' a where
      m: "arrayMap (togglePreferenceCallback k) h (preferencesRef refs) = Some (h', a)"
      and r: "arrayAt PrefObj h' a (togglePreference k (preferences d))" by blast
    have p: "prefix h h'" using m by (rule togglePreference_prefix)
    show ?thesis
      using m r p represents_prefix [OF rep p]
      by (simp add: Pair TogglePreference represents_def)
  next
    case (ToggleSetting key)
    let ?h' = "h @ [SettingsObj (toggleSetting key (settings d))]"
    have m: "toggleSettingStore key h (settingsRef refs) = Some (?h', length h)"
      using se by (simp add: toggleSettingStore_def alloc_def)
    have p: "prefix h ?h'" by simp
    have new: "deref ?h' (length h) = Some (SettingsObj (toggleSetting key (settings d)))"
      by (simp add: deref_def)
    show ?thesis
      using m new represents_prefix [OF rep p]
      by (simp add: Pair ToggleSetting represents_def)
  next
    case (SelectFramework i)
    from arrayAt_nth [OF fw] obtain fs where s: "deref h frameworksRef = Some (ArrObj fs)"
      and l: "length fs = length frameworks"
      and n: "\<And>j. j < length frameworks \<Longrightarrow> deref h (fs ! j) = Some (FrameworkObj (frameworks ! j))"
      by blast
    show ?thesis
    proof (cases "i < length frameworks")
      case True
      let ?h' = "h @ [StringsObj []]"
      have p: "prefix h ?h'" by simp
      have new: "deref ?h' (length h) = Some (StringsObj [])"
        by (simp add: deref_def)
      have "deref ?h' (fs ! i) = Some (FrameworkObj (frameworks ! i))"
        using p n [OF True] by (rule deref_prefix)
      then show ?thesis
        using True l s new represents_prefix [OF rep p]
        by (simp add: Pair SelectFramework represents_def alloc_def handleFrameworkSelect_def)
    next
      case False
      then show ?thesis using l s rep by (simp add: Pair SelectFramework)
    qed
  next
    case (NextStep response)
    let ?h' = "h @ [StringsObj (responses (decisions d) @ [response])]"
    have p: "prefix h ?h'" by simp
    have sel: "selectedFramework (handleNextStep response (decisions d))
                 = selectedFramework (decisions d)"
      by (simp add: handleNextStep_def Let_def split: option.splits)
    have rsp: "responses (handleNextStep response (decisions d))
                 = responses (decisions d) @ [response]"
      by (simp add: handleNextStep_def Let_def split: option.splits)
    have new: "deref ?h' (length h) = Some (StringsObj (responses (decisions d) @ [response]))"
      by (simp add: deref_def)
    show ?thesis
      using re new represents_prefix [OF rep p]
      by (simp add: Pair NextStep represents_def alloc_def sel rsp)
  next
    case ResetDecision
    let ?h' = "h @ [StringsObj []]"
    have p: "prefix h ?h'" by simp
    have new: "deref ?h' (length h) = Some (StringsObj [])"
      by (simp add: deref_def)
    show ?thesis
      using new represents_prefix [OF rep p]
      by (simp add: Pair ResetDecision represents_def alloc_def resetDecision_def)
  next
    case (PressPhilosophy i)
    from arrayAt_nth [OF ph] obtain ps where s: "deref h philosophersRef = Some (ArrObj ps)"
      and l: "length ps = length philosophers"
      and n: "\<And>j. j < length philosophers \<Longrightarrow>
                deref h (ps ! j) = Some (PhilosophyObj (philosophers ! j))"
      by blast
    show ?thesis
    proof (cases "i < length philosophers")
      case True
      then show ?thesis
        using l s n [OF True] rep
        by (simp add: Pair PressPhilosophy represents_def handlePhilosophyPress_def)
    next
      case False
      then show ?thesis using l s rep by (simp add: Pair PressPhilosophy)
    qed
  qed
qed

lemma runData_refines:
  "represents st d \<Longrightarrow>
     \<exists>st'. runData es st = Some st' \<and> represents st' (foldl (\<lambda>d e. applyData e d) d es)
          \<and> prefix (fst st) (fst st')"
proof (induction es arbitrary: st d)
  case Nil
  then show ?case by simp
next
  case (Cons e es)
  from handleData_refines [OF Cons.prems, of e] obtain st1 where
    h: "handleData e st = Some st1" and r: "represents st1 (applyData e d)"
    and p: "prefix (fst st) (fst st1)" by blast
  from Cons.IH [OF r] obtain st' where
    "runData es st1 = Some st'" "represents st' (foldl (\<lambda>d e. applyData e d) (applyData e d) es)"
    "prefix (fst st1) (fst st')" by blast
  with h p show ?case by (auto intro: prefix_order.trans)
qed

lemma module_represents: "represents (mountedHeap, mountedRefs) initialData"
  by (simp add: represents_def mountedHeap_def moduleHeap_def mountedRefs_def initialData_def
      arrayAt_def elemsAt_def deref_def initialHabits_def philosophicalPreferences_def
      frameworks_def philosophers_def frameworksRef_def philosophersRef_def
      initialDecisions_def initialWisdom_def nth_append)

text \<open>
  Claim C7. The module-level literal sample data are never mutated. From the store of the
  mounted screens, every sequence of the handlers that take or build objects (the habit,
  preference and setting toggles, framework selection, next step, reset, philosophy
  press) runs without error and leaves every object of the loaded modules exactly as it
  was: the arrays \<open>initialHabits\<close>, \<open>philosophicalPreferences\<close>, \<open>frameworks\<close> and
  \<open>philosophers\<close> still hold the literal data, and so do \<open>initialSettings\<close> and
  \<open>profileData\<close>. The handlers produce the new state by copying.
\<close>

theorem literals_never_mutated:
  "\<exists>h refs. runData es (mountedHeap, mountedRefs) = Some (h, refs)
     \<and> take (length moduleHeap) h = moduleHeap
     \<and> arrayAt HabitObj h 4 initialHabits
     \<and> arrayAt PrefObj h 11 philosophicalPreferences
     \<and> deref h 12 = Some (SettingsObj initialSettings)
     \<and> arrayAt FrameworkObj h 17 frameworks
     \<and> arrayAt PhilosophyObj h 22 philosophers
     \<and> deref h 23 = Some (ProfileObj profileData)"
proof -
  from runData_refines [OF module_represents, of es] obtain st' where
    r: "runData es (mountedHeap, mountedRefs) = Some st'" and p: "prefix mountedHeap (fst st')"
    by auto
  have "prefix moduleHeap mountedHeap" by (simp add: mountedHeap_def)
  with p have q: "prefix moduleHeap (fst st')" by (rule prefix_order.trans [rotated])
  have m: "arrayAt HabitObj moduleHeap 4 initialHabits"
    "arrayAt PrefObj moduleHeap 11 philosophicalPreferences"
    "deref moduleHeap 12 = Some (SettingsObj initialSettings)"
    "arrayAt FrameworkObj moduleHeap 17 frameworks"
    "arrayAt PhilosophyObj moduleHeap 22 philosophers"
    "deref moduleHeap 23 = Some (ProfileObj profileData)"
    by (simp_all add: moduleHeap_def arrayAt_def elemsAt_def deref_def initialHabits_def
        philosophicalPreferences_def frameworks_def philosophers_def nth_append)
  from q have "take (length moduleHeap) (fst st') = moduleHeap"
    by (auto simp: prefix_def)
  with r arrayAt_prefix [OF q m(1)] arrayAt_prefix [OF q m(2)] deref_prefix [OF q m(3)]
    arrayAt_prefix [OF q m(4)] arrayAt_prefix [OF q m(5)] deref_prefix [OF q m(6)]
  show ?thesis by (cases st') auto
qed

section \<open>Properties of the wisdom screen\<close>





section \<open>Properties of the animated characters\<close>

lemmas paxton_defs = paxtonRun_def paxtonEffect_def paxtonCleanup_def performJump_def
  startAnimation_def tryCatch_def cancelAnimation_def assign_def warn_def setTimeout_def
  withRandom_def callOnPress_def safetyCheck_def setMounted_def setupIdleBreathing_def
  blink_def randomizeArmMovements_def happyWave_def changeGaze_def setEffectMood_def
  paxtonInitial_def Let_def

subsection \<open>The owl: fixed presets, random blink timers\<close>

lemma blinkEyes_entries:
  "tr \<in> set (blinkEyes T u n t k) \<Longrightarrow> snd tr = (EyeBlink, Anim blinkAnimation)"
  by (induction n arbitrary: t k) (auto split: if_splits)

lemma blinkEyes_filter: "filter (\<lambda>tr. fst (snd tr) \<noteq> EyeBlink) (blinkEyes T u n t k) = []"
  by (auto simp: filter_empty_conv dest: blinkEyes_entries)

lemma presets_no_blink:
  "filter (\<lambda>tr. fst (snd tr) \<noteq> EyeBlink) (atTime 0 (wingFlapFor mood @ headTiltFor mood @ floatFor mood))
     = atTime 0 (wingFlapFor mood @ headTiltFor mood @ floatFor mood)"
  by (cases mood) (simp_all add: atTime_def wingFlapFor_def headTiltFor_def floatFor_def)

lemma filter_take_drop:
  "filter P xs = [] \<Longrightarrow> filter P (take m xs) = [] \<and> filter P (drop m xs) = []"
  by (auto simp: filter_empty_conv dest: in_set_takeD in_set_dropD)

lemma mascot_presets:
  "filter (\<lambda>tr. fst (snd tr) \<noteq> EyeBlink) (mascotRun mood T u n)
     = (0, BodyBounce, Anim bodyBounceAnimation)
       # atTime 0 (wingFlapFor mood @ headTiltFor mood @ floatFor mood)"
  using filter_take_drop [OF blinkEyes_filter [of T u n 0 0], of 1] presets_no_blink [of mood]
  by (simp add: mascotRun_def Let_def)

lemma blinkEyes_gaps:
  "Suc i < length (blinkEyes T u n t k) \<Longrightarrow>
     fst (blinkEyes T u n t k ! Suc i)
       = fst (blinkEyes T u n t k ! i) + fadd 2000 (fmul (u (k + i)) 2000)"
proof (induction n arbitrary: t k i)
  case 0
  then show ?case by (simp split: if_splits)
next
  case (Suc n)
  show ?case
  proof (cases "mountedAt T t")
    case False
    with Suc.prems show ?thesis by simp
  next
    case True
    let ?rest = "blinkEyes T u n (t + fadd 2000 (fmul (u k) 2000)) (Suc k)"
    show ?thesis
    proof (cases i)
      case 0
      have "?rest \<noteq> []" using Suc.prems True by (auto simp: 0)
      then have "fst (hd ?rest) = t + fadd 2000 (fmul (u k) 2000)"
        by (cases n) (auto split: if_splits)
      with \<open>?rest \<noteq> []\<close> True show ?thesis by (simp add: 0 hd_conv_nth)
    next
      case (Suc j)
      have "Suc j < length ?rest" using Suc.prems True by (simp add: Suc)
      from Suc.IH [OF this] True show ?thesis by (simp add: Suc)
    qed
  qed
qed

lemma randomize_arm:
  "\<not> cancelThrows env ArmWave \<Longrightarrow>
     (random env (drawn s) < fl 0.9 \<longrightarrow>
        shared (fst (randomizeArmMovements env s)) ArmWave = Num 0
        \<and> timeouts (fst (randomizeArmMovements env s))
            = timeouts s @ [(RandomizeArmMovements,
                              fadd 25000 (fmul (random env (Suc (drawn s))) 10000))])
   \<and> (\<not> random env (drawn s) < fl 0.9 \<longrightarrow>
        shared (fst (randomizeArmMovements env s)) ArmWave
          = Anim (Sequence [Timing (fsub (fmul (random env (Suc (drawn s))) 8) 3)
                                   (Some (fadd 2000 (fmul (random env (Suc (Suc (drawn s)))) 1000)))
                                   EaseDefault,
                            Timing 0 (Some 1000) EaseDefault])
        \<and> timeouts (fst (randomizeArmMovements env s))
            = timeouts s @ [(RandomizeArmMovements,
                              fadd 25000 (fmul (random env (Suc (Suc (Suc (drawn s))))) 10000))])"
  by (simp add: paxton_defs)

text \<open>
  Claim C3 (amended). For every mood the animations that the effect of \<open>MascotCharacter\<close>
  assigns besides the blink are a fixed list keyed to the mood, the same in every run, and
  every blink is the same fixed sequence. The blinks themselves are rescheduled by timer
  with a random delay: each blink follows the previous one after
  \<open>2000 + Math.random() * 2000\<close> milliseconds. In \<open>PaxtonCharacter\<close> the timer callback
  \<open>randomizeArmMovements\<close> reschedules itself after \<open>25000 + Math.random() * 10000\<close>
  milliseconds and, when the first random number is not below 0.9, moves the arm by the
  random angle \<open>Math.random() * 8 - 3\<close> over the random duration
  \<open>2000 + Math.random() * 1000\<close>. Each of these expressions is evaluated in double
  arithmetic, every operator rounding its result, and 0.9 is the double nearest to it.
\<close>

theorem choreography_presets_and_random_timers:
  "filter (\<lambda>tr. fst (snd tr) \<noteq> EyeBlink) (mascotRun mood T u n)
     = (0, BodyBounce, Anim bodyBounceAnimation)
       # atTime 0 (wingFlapFor mood @ headTiltFor mood @ floatFor mood)
   \<and> (\<forall>tr \<in> set (blinkEyes T u n 0 0). snd tr = (EyeBlink, Anim blinkAnimation))
   \<and> (\<forall>i. Suc i < length (blinkEyes T u n 0 0) \<longrightarrow>
          fst (blinkEyes T u n 0 0 ! Suc i)
            = fst (blinkEyes T u n 0 0 ! i) + fadd 2000 (fmul (u i) 2000))
   \<and> (\<not> cancelThrows env ArmWave \<longrightarrow>
        (random env (drawn s) < fl 0.9 \<longrightarrow>
           shared (fst (randomizeArmMovements env s)) ArmWave = Num 0
           \<and> timeouts (fst (randomizeArmMovements env s))
               = timeouts s @ [(RandomizeArmMovements,
                                 fadd 25000 (fmul (random env (Suc (drawn s))) 10000))])
        \<and> (\<not> random env (drawn s) < fl 0.9 \<longrightarrow>
           shared (fst (randomizeArmMovements env s)) ArmWave
             = Anim (Sequence [Timing (fsub (fmul (random env (Suc (drawn s))) 8) 3)
                                      (Some (fadd 2000 (fmul (random env (Suc (Suc (drawn s)))) 1000)))
                                      EaseDefault,
                               Timing 0 (Some 1000) EaseDefault])
           \<and> timeouts (fst (randomizeArmMovements env s))
               = timeouts s @ [(RandomizeArmMovements,
                                 fadd 25000 (fmul (random env (Suc (Suc (Suc (drawn s))))) 10000))]))"
  using mascot_presets [of mood T u n] blinkEyes_entries [of _ T u n 0 0]
    blinkEyes_gaps [of _ T u n 0 0] randomize_arm [of env s]
  by simp

theorem choreography_presets_and_random_timers_witness:
  "(0, EyeBlink, Anim blinkAnimation)
      \<in> set (blinkEyes None (\<lambda>k. 3752999689475413 / 4503599627370496) 2 0 0)
   \<and> snd (0 :: real, EyeBlink, Anim blinkAnimation) = (EyeBlink, Anim blinkAnimation)
   \<and> Suc 0 < length (blinkEyes None (\<lambda>k. 3752999689475413 / 4503599627370496) 2 0 0)
   \<and> fst (blinkEyes None (\<lambda>k. 3752999689475413 / 4503599627370496) 2 0 0 ! Suc 0)
       = fst (blinkEyes None (\<lambda>k. 3752999689475413 / 4503599627370496) 2 0 0 ! 0)
         + 8063085270357333 / 2199023255552
   \<and> \<not> cancelThrows quiet ArmWave
   \<and> random quiet (drawn paxtonInitial) < fl 0.9
   \<and> shared (fst (randomizeArmMovements quiet paxtonInitial)) ArmWave = Num 0
   \<and> \<not> cancelThrows restless ArmWave
   \<and> \<not> random restless (drawn paxtonInitial) < fl 0.9
   \<and> shared (fst (randomizeArmMovements restless paxtonInitial)) ArmWave
       = Anim (Sequence [Timing (9 / 2) (Some (5875 / 2)) EaseDefault,
                         Timing 0 (Some 1000) EaseDefault])
   \<and> timeouts (fst (randomizeArmMovements restless paxtonInitial))
       = timeouts paxtonInitial @ [(RandomizeArmMovements, 34375)]"
proof -
  let ?u = "\<lambda>k::nat. 3752999689475413 / 4503599627370496 :: real"
  have m: "(0, EyeBlink, Anim blinkAnimation) \<in> set (blinkEyes None ?u 2 0 0)"
    by (simp add: numeral_2_eq_2)
  have l: "Suc 0 < length (blinkEyes None ?u 2 0 0)"
    by (simp add: numeral_2_eq_2)
  have q: "\<not> cancelThrows quiet ArmWave" "random quiet (drawn paxtonInitial) < fl 0.9"
    by (simp_all add: quiet_def)
  have r: "\<not> cancelThrows restless ArmWave" "\<not> random restless (drawn paxtonInitial) < fl 0.9"
    by (simp_all add: restless_def fl_09)
  have f1: "fl (1875 / 2) = 1875 / 2"
    by (subst fl_eval [of 9]) (simp_all add: pow2_def roundHalfEven_def)
  have f2: "fl (5875 / 2) = 5875 / 2"
    by (subst fl_eval [of 11]) (simp_all add: pow2_def roundHalfEven_def)
  have v: "fsub (fmul (15 / 16) 8) 3 = 9 / 2" "fadd 2000 (fmul (15 / 16) 1000) = 5875 / 2"
    "fadd 25000 (fmul (15 / 16) 10000) = 34375"
    by (simp_all add: fadd_def fmul_def fsub_def fl_quarters f1 f2)
  note a = choreography_presets_and_random_timers [of Thinking None ?u 2 quiet paxtonInitial]
  note b = choreography_presets_and_random_timers [of Thinking None ?u 2 restless paxtonInitial]
  from a m have 1: "snd (0 :: real, EyeBlink, Anim blinkAnimation) = (EyeBlink, Anim blinkAnimation)"
    by simp
  from a l have "fst (blinkEyes None ?u 2 0 0 ! Suc 0)
       = fst (blinkEyes None ?u 2 0 0 ! 0) + fadd 2000 (fmul (?u 0) 2000)"
    by blast
  then have 2: "fst (blinkEyes None ?u 2 0 0 ! Suc 0)
       = fst (blinkEyes None ?u 2 0 0 ! 0) + 8063085270357333 / 2199023255552"
    by (simp only: blink_delay_check)
  from a q have 3: "shared (fst (randomizeArmMovements quiet paxtonInitial)) ArmWave = Num 0"
    by blast
  from b r have "shared (fst (randomizeArmMovements restless paxtonInitial)) ArmWave
             = Anim (Sequence [Timing (fsub (fmul (random restless (Suc (drawn paxtonInitial))) 8) 3)
                    (Some (fadd 2000 (fmul (random restless (Suc (Suc (drawn paxtonInitial)))) 1000)))
                    EaseDefault,
                  Timing 0 (Some 1000) EaseDefault])
       \<and> timeouts (fst (randomizeArmMovements restless paxtonInitial))
          = timeouts paxtonInitial @ [(RandomizeArmMovements,
               fadd 25000 (fmul (random restless (Suc (Suc (Suc (drawn paxtonInitial))))) 10000))]"
    by blast
  then have 4: "shared (fst (randomizeArmMovements restless paxtonInitial)) ArmWave
       = Anim (Sequence [Timing (9 / 2) (Some (5875 / 2)) EaseDefault,
                         Timing 0 (Some 1000) EaseDefault])
     \<and> timeouts (fst (randomizeArmMovements restless paxtonInitial))
       = timeouts paxtonInitial @ [(RandomizeArmMovements, 34375)]"
    by (simp add: restless_def v)
  from m l q r 1 2 3 4 show ?thesis by blast
qed

text \<open>
  Claim C3 as stated says that two runs with the same mood produce the same sequence of
  timed value transitions, with no random delays or amplitudes. Two runs of the owl in the
  mood happy, observed up to the first timer call, differ when \<open>Math.random()\<close> returns 0
  in one and 1/2 in the other (the second blink starts after 2000 and after 3000
  milliseconds), and so do the arm animations that \<open>randomizeArmMovements\<close> starts when
  it returns 0.9375 and 0.96875.
\<close>

theorem choreography_counterexample:
  "mascotRun Happy None (\<lambda>k. 0) 1 \<noteq> mascotRun Happy None (\<lambda>k. 1 / 2) 1
   \<and> shared (fst (randomizeArmMovements restless paxtonInitial)) ArmWave
       \<noteq> shared (fst (randomizeArmMovements (restless\<lparr> random := (\<lambda>k. 31 / 32) \<rparr>) paxtonInitial))
            ArmWave"
  by (simp add: mascotRun_def atTime_def wingFlapFor_def headTiltFor_def floatFor_def
      paxton_defs restless_def fadd_def fmul_def fsub_def fl_09 fl_quarters)

subsection \<open>Paxton: what cancels an animation\<close>

lemma start_cancels:
  "\<not> cancelThrows env v \<Longrightarrow>
     cancelled (fst (startAnimation env v a s)) = cancelled s @ [(v, shared s v)]
     \<and> shared (fst (startAnimation env v a s)) v = a"
  by (simp add: paxton_defs)

lemma jump_cancels:
  "\<forall>v. \<not> cancelThrows env v \<Longrightarrow>
     cancelled (fst (performJump env s)) =
       cancelled s @ [(JumpHeight, shared s JumpHeight), (ArmWave, shared s ArmWave),
                      (HeadTilt, shared s HeadTilt), (FloatY, shared s FloatY),
                      (JumpHeight, halted (shared s JumpHeight)), (FloatY, halted (shared s FloatY)),
                      (ArmWave, halted (shared s ArmWave)), (HeadTilt, halted (shared s HeadTilt))]"
  by (simp add: paxton_defs split: option.splits)

lemma cleanup_cancels:
  "\<forall>v. \<not> cancelThrows env v \<Longrightarrow>
     cancelled (fst (paxtonCleanup env s)) =
       cancelled s @ map (\<lambda>v. (v, shared s v))
         [BodyBounce, ArmWave, HeadTilt, FloatY, EyeBlink, LegSwing, BodyRotation, MouthSmile,
          CharacterRotation, JumpHeight]"
  by (simp add: paxton_defs)

text \<open>
  Claim C4 (amended). Animations of \<open>PaxtonCharacter\<close> are cancelled by more than the
  unmount. When no call of \<open>cancelAnimation\<close> fails: every \<open>startAnimation\<close> first
  cancels what the value it restarts holds; a press on the mounted character runs
  \<open>performJump\<close>, which cancels what \<open>jumpHeight\<close>, \<open>armWave\<close>, \<open>headTilt\<close> and
  \<open>floatY\<close> hold before it restarts them; and the cleanup of the effect cancels all ten
  values.
\<close>

theorem cancellation_beyond_unmount:
  "(\<forall>v. \<not> cancelThrows env v) \<longrightarrow>
     cancelled (fst (startAnimation env v a s)) = cancelled s @ [(v, shared s v)]
     \<and> shared (fst (startAnimation env v a s)) v = a
     \<and> (effectMood s \<noteq> None \<longrightarrow> paxtonStep env Press s = performJump env s)
     \<and> cancelled (fst (performJump env s)) =
         cancelled s @ [(JumpHeight, shared s JumpHeight), (ArmWave, shared s ArmWave),
                        (HeadTilt, shared s HeadTilt), (FloatY, shared s FloatY),
                        (JumpHeight, halted (shared s JumpHeight)),
                        (FloatY, halted (shared s FloatY)),
                        (ArmWave, halted (shared s ArmWave)),
                        (HeadTilt, halted (shared s HeadTilt))]
     \<and> cancelled (fst (paxtonCleanup env s)) =
         cancelled s @ map (\<lambda>v. (v, shared s v))
           [BodyBounce, ArmWave, HeadTilt, FloatY, EyeBlink, LegSwing, BodyRotation,
            MouthSmile, CharacterRotation, JumpHeight]"
  using start_cancels [of env v a s] jump_cancels [of env s] cleanup_cancels [of env s]
  by simp

theorem cancellation_beyond_unmount_witness:
  "(\<forall>v. \<not> cancelThrows quiet v)
   \<and> effectMood (paxtonInitial\<lparr> effectMood := Some PaxtonShy \<rparr>) \<noteq> None
   \<and> paxtonStep quiet Press (paxtonInitial\<lparr> effectMood := Some PaxtonShy \<rparr>)
       = performJump quiet (paxtonInitial\<lparr> effectMood := Some PaxtonShy \<rparr>)
   \<and> cancelled (fst (startAnimation quiet HeadTilt (Num 3)
                        (paxtonInitial\<lparr> effectMood := Some PaxtonShy \<rparr>)))
       = cancelled (paxtonInitial\<lparr> effectMood := Some PaxtonShy \<rparr>)
         @ [(HeadTilt, shared (paxtonInitial\<lparr> effectMood := Some PaxtonShy \<rparr>) HeadTilt)]"
proof -
  have h: "\<forall>v. \<not> cancelThrows quiet v" by (simp add: quiet_def)
  have m: "effectMood (paxtonInitial\<lparr> effectMood := Some PaxtonShy \<rparr>) \<noteq> None" by simp
  from h m cancellation_beyond_unmount
    [of quiet HeadTilt "Num 3" "paxtonInitial\<lparr> effectMood := Some PaxtonShy \<rparr>"]
  show ?thesis by blast
qed

text \<open>
  Claim C4 as stated says that only the unmount cancels a running animation. After the
  mount in the mood thinking, \<open>headTilt\<close> holds an endlessly repeating animation; a press
  on the still mounted character cancels it (the eleventh call of \<open>cancelAnimation\<close> of
  the run), and the mount effect alone has already cancelled eight times by restarting
  values.
\<close>

theorem cancellation_counterexample:
  "effectMood (fst (paxtonRun quiet [Render PaxtonThinking])) = Some PaxtonThinking
   \<and> shared (fst (paxtonRun quiet [Render PaxtonThinking])) HeadTilt
       = Anim (Repeat (Sequence [Timing 7 (Some 2000) EaseDefault, Timing 3 (Some 1500) EaseDefault,
                                 Timing 7 (Some 2500) EaseDefault]) (- 1) True)
   \<and> length (cancelled (fst (paxtonRun quiet [Render PaxtonThinking]))) = 8
   \<and> cancelled (fst (paxtonRun quiet [Render PaxtonThinking, Press])) ! 10
       = (HeadTilt, Anim (Repeat (Sequence [Timing 7 (Some 2000) EaseDefault,
                                   Timing 3 (Some 1500) EaseDefault,
                                   Timing 7 (Some 2500) EaseDefault]) (- 1) True))
   \<and> effectMood (fst (paxtonRun quiet [Render PaxtonThinking, Press])) = Some PaxtonThinking"
  by (simp add: paxton_defs quiet_def)

subsection \<open>Paxton: caught exceptions\<close>

lemma tryCatch_never_throws: "(\<And>s1. \<not> snd (catch s1)) \<Longrightarrow> \<not> snd (tryCatch body catch s)"
  by (simp add: tryCatch_def Let_def)

lemma start_never_throws: "\<not> snd (startAnimation env v a s)"
  unfolding startAnimation_def by (rule tryCatch_never_throws) (simp add: warn_def)

lemma start_catches:
  "cancelThrows env v \<Longrightarrow>
     fst (startAnimation env v a s) = s\<lparr> warnings := warnings s @ [''Animation error:''] \<rparr>"
  by (simp add: paxton_defs)

lemma jump_never_throws: "\<not> snd (performJump env s)"
  unfolding performJump_def by (rule tryCatch_never_throws) (simp add: warn_def assign_def)

lemma jump_recovers:
  "cancelThrows env JumpHeight \<or> cancelThrows env ArmWave \<or> cancelThrows env HeadTilt
     \<or> cancelThrows env FloatY \<or> onPress env = Some True \<Longrightarrow>
   shared (fst (performJump env s)) JumpHeight = Num 0
   \<and> shared (fst (performJump env s)) ArmWave = Num 1
   \<and> shared (fst (performJump env s)) HeadTilt = Num 1
   \<and> warnings (fst (performJump env s)) = warnings s @ [''Jump animation error:'']"
  by (cases "cancelThrows env JumpHeight"; cases "cancelThrows env ArmWave";
      cases "cancelThrows env HeadTilt"; cases "cancelThrows env FloatY";
      simp add: paxton_defs)

lemma jump_passes:
  "\<not> (cancelThrows env JumpHeight \<or> cancelThrows env ArmWave \<or> cancelThrows env HeadTilt
     \<or> cancelThrows env FloatY \<or> onPress env = Some True) \<Longrightarrow>
   warnings (fst (performJump env s)) = warnings s"
  by (cases "onPress env") (simp_all add: paxton_defs)

lemma blink_guard: "\<not> isComponentMounted s \<Longrightarrow> blink env b s = (s, False)"
  by (simp add: blink_def)

text \<open>
  Claim C6 (amended). The error handling of \<open>PaxtonCharacter\<close> has no error taxonomy, but
  it is more than null-guards. \<open>startAnimation\<close> and \<open>performJump\<close> never let an exception
  escape. When \<open>cancelAnimation\<close> fails inside \<open>startAnimation\<close>, the warning
  \<open>Animation error:\<close> is logged and nothing else changes. When an exception is raised
  inside the \<open>try\<close> block of \<open>performJump\<close> (a \<open>cancelAnimation\<close> fails, or the \<open>onPress\<close>
  callback throws), the \<open>catch\<close> branch logs \<open>Jump animation error:\<close> and assigns the
  constants 0, 1 and 1 to \<open>jumpHeight\<close>, \<open>armWave\<close> and \<open>headTilt\<close>; otherwise
  \<open>performJump\<close> logs nothing. The guard on \<open>isComponentMounted\<close> makes \<open>blink\<close> do
  nothing once the component is unmounted.
\<close>

theorem caught_exceptions_recover:
  "\<not> snd (startAnimation env v a s)
   \<and> (cancelThrows env v \<longrightarrow>
        fst (startAnimation env v a s) = s\<lparr> warnings := warnings s @ [''Animation error:''] \<rparr>)
   \<and> \<not> snd (performJump env s)
   \<and> (cancelThrows env JumpHeight \<or> cancelThrows env ArmWave \<or> cancelThrows env HeadTilt
        \<or> cancelThrows env FloatY \<or> onPress env = Some True \<longrightarrow>
        shared (fst (performJump env s)) JumpHeight = Num 0
        \<and> shared (fst (performJump env s)) ArmWave = Num 1
        \<and> shared (fst (performJump env s)) HeadTilt = Num 1
        \<and> warnings (fst (performJump env s)) = warnings s @ [''Jump animation error:''])
   \<and> (\<not> (cancelThrows env JumpHeight \<or> cancelThrows env ArmWave \<or> cancelThrows env HeadTilt
           \<or> cancelThrows env FloatY \<or> onPress env = Some True) \<longrightarrow>
        warnings (fst (performJump env s)) = warnings s)
   \<and> (\<not> isComponentMounted s \<longrightarrow> blink env b s = (s, False))"
  using start_never_throws [of env v a s] start_catches [of env v a s]
    jump_never_throws [of env s] jump_recovers [of env s] jump_passes [of env s]
    blink_guard [of s env b]
  by blast

theorem caught_exceptions_recover_witness:
  "cancelThrows failingCancel HeadTilt
   \<and> fst (startAnimation failingCancel HeadTilt (Num 3) paxtonInitial)
       = paxtonInitial\<lparr> warnings := warnings paxtonInitial @ [''Animation error:''] \<rparr>
   \<and> onPress throwingPress = Some True
   \<and> shared (fst (performJump throwingPress paxtonInitial)) ArmWave = Num 1
   \<and> warnings (fst (performJump throwingPress paxtonInitial))
       = warnings paxtonInitial @ [''Jump animation error:'']
   \<and> \<not> cancelThrows quiet JumpHeight \<and> \<not> cancelThrows quiet ArmWave
   \<and> \<not> cancelThrows quiet HeadTilt \<and> \<not> cancelThrows quiet FloatY
   \<and> onPress quiet \<noteq> Some True
   \<and> warnings (fst (performJump quiet paxtonInitial)) = warnings paxtonInitial
   \<and> \<not> isComponentMounted (paxtonInitial\<lparr> isComponentMounted := False \<rparr>)
   \<and> blink quiet True (paxtonInitial\<lparr> isComponentMounted := False \<rparr>)
       = (paxtonInitial\<lparr> isComponentMounted := False \<rparr>, False)"
proof -
  have f: "cancelThrows failingCancel HeadTilt" by (simp add: failingCancel_def)
  have t: "onPress throwingPress = Some True" by (simp add: throwingPress_def)
  have q: "\<not> cancelThrows quiet JumpHeight" "\<not> cancelThrows quiet ArmWave"
    "\<not> cancelThrows quiet HeadTilt" "\<not> cancelThrows quiet FloatY" "onPress quiet \<noteq> Some True"
    by (simp_all add: quiet_def)
  have u: "\<not> isComponentMounted (paxtonInitial\<lparr> isComponentMounted := False \<rparr>)" by simp
  from f caught_exceptions_recover [of failingCancel HeadTilt "Num 3" paxtonInitial]
  have 1: "fst (startAnimation failingCancel HeadTilt (Num 3) paxtonInitial)
       = paxtonInitial\<lparr> warnings := warnings paxtonInitial @ [''Animation error:''] \<rparr>"
    by blast
  from t caught_exceptions_recover [of throwingPress HeadTilt "Num 3" paxtonInitial]
  have 2: "shared (fst (performJump throwingPress paxtonInitial)) ArmWave = Num 1
     \<and> warnings (fst (performJump throwingPress paxtonInitial))
         = warnings paxtonInitial @ [''Jump animation error:'']"
    by blast
  from q caught_exceptions_recover [of quiet HeadTilt "Num 3" paxtonInitial]
  have 3: "warnings (fst (performJump quiet paxtonInitial)) = warnings paxtonInitial"
    by blast
  from u caught_exceptions_recover
    [of quiet HeadTilt "Num 3" "paxtonInitial\<lparr> isComponentMounted := False \<rparr>" True]
  have 4: "blink quiet True (paxtonInitial\<lparr> isComponentMounted := False \<rparr>)
       = (paxtonInitial\<lparr> isComponentMounted := False \<rparr>, False)"
    by blast
  from f t q u 1 2 3 4 show ?thesis by blast
qed

text \<open>
  Claim C6 as stated says that no operation has a catch-based recovery path or an
  error-branch state reset. When the \<open>onPress\<close> callback of a mounted character throws,
  the press does not fail: the exception is caught, a warning is logged, and
  \<open>jumpHeight\<close>, \<open>armWave\<close> and \<open>headTilt\<close> are reset to constants.
\<close>

theorem caught_exceptions_counterexample:
  "\<not> snd (paxtonRun throwingPress [Render PaxtonShy, Press])
   \<and> presses (fst (paxtonRun throwingPress [Render PaxtonShy, Press])) = 1
   \<and> warnings (fst (paxtonRun throwingPress [Render PaxtonShy, Press])) = [''Jump animation error:'']
   \<and> shared (fst (paxtonRun throwingPress [Render PaxtonShy, Press])) JumpHeight = Num 0
   \<and> shared (fst (paxtonRun throwingPress [Render PaxtonShy, Press])) ArmWave = Num 1
   \<and> shared (fst (paxtonRun throwingPress [Render PaxtonShy, Press])) HeadTilt = Num 1"
  by (simp add: paxton_defs throwingPress_def)

end
